theory Spec2Isabelle
  imports Complex_Main "HOL-Library.Char_ord" "HOL-Library.List_Lexorder"
begin

section \<open>JavaScript values and the built-ins the handlers call\<close>

text \<open>
  The route handlers of \<^verbatim>\<open>sales.routes.js\<close> receive strings from the query string and the
  path, and JSON values from the request body. They test them for truthiness and pass
  them to \<^verbatim>\<open>parseInt\<close>, \<^verbatim>\<open>parseFloat\<close>, \<^verbatim>\<open>isNaN\<close>, \<^verbatim>\<open>Math.max\<close>, \<^verbatim>\<open>Math.min\<close> and
  \<^verbatim>\<open>Math.ceil\<close>. This section gives those built-ins as ECMAScript defines them.

  A number is \<open>NaN\<close>, an infinity or a finite value. Finite doubles are modelled by the
  rationals they denote: rounding to 53 bits, overflow of a literal to infinity and the
  sign of zero are not modelled. None of them changes whether a value is \<open>NaN\<close> or
  whether it is truthy.
  A string is a list of code units below 256; text with other code units is not
  modelled.
  A body field is a JSON scalar or absent (\<open>JUndefined\<close>); the schema of the API types
  every field as a scalar, and arrays or objects as field values are not modelled.
\<close>

datatype jsnum = NaN | PosInf | NegInf | Fin rat

datatype jsval = JUndefined | JNull | JBool bool | JNumber jsnum | JString string

subsection \<open>Truthiness\<close>

fun truthy :: "jsval \<Rightarrow> bool" where
  "truthy JUndefined = False"
| "truthy JNull = False"
| "truthy (JBool b) = b"
| "truthy (JNumber NaN) = False"
| "truthy (JNumber (Fin r)) = (r \<noteq> 0)"
| "truthy (JNumber _) = True"
| "truthy (JString s) = (s \<noteq> [])"

subsection \<open>Characters\<close>

definition is_space :: "char \<Rightarrow> bool" where
  \<comment> \<open>StrWhiteSpaceChar below 256: TAB, LF, VT, FF, CR, SP and the no-break space\<close>
  "is_space c =
     (c \<in> set [CHR 0x09, CHR 0x0A, CHR 0x0B, CHR 0x0C, CHR 0x0D, CHR '' '', CHR 0xA0])"

definition digit_of :: "char \<Rightarrow> nat" where
  \<comment> \<open>the value of a digit in radix up to 16; 36 for a character that is no digit\<close>
  "digit_of c = (let k = (of_char c :: nat) in
     if 48 \<le> k \<and> k \<le> 57 then k - 48
     else if 97 \<le> k \<and> k \<le> 102 then k - 87
     else if 65 \<le> k \<and> k \<le> 70 then k - 55
     else 36)"

definition is_digit :: "nat \<Rightarrow> char \<Rightarrow> bool" where
  "is_digit R c = (digit_of c < R)"

definition digits_value :: "nat \<Rightarrow> string \<Rightarrow> nat" where
  "digits_value R Z = foldl (\<lambda>a c. a * R + digit_of c) 0 Z"

definition digit_char :: "nat \<Rightarrow> char" where
  "digit_char d = ''0123456789'' ! d"

function show_nat :: "nat \<Rightarrow> string" where
  "show_nat n = (if n < 10 then [digit_char n] else show_nat (n div 10) @ [digit_char (n mod 10)])"
  by pat_completeness auto
termination
  by (relation "measure id") auto

declare show_nat.simps [simp del]

subsection \<open>Number to string\<close>

fun frac_digits :: "nat \<Rightarrow> rat \<Rightarrow> string" where
  \<comment> \<open>the decimal digits of a fraction in \<open>[0, 1)\<close>, at most \<open>fuel\<close> of them\<close>
  "frac_digits 0 x = []"
| "frac_digits (Suc fuel) x =
     (if x = 0 then []
      else let y = 10 * x; d = nat \<lfloor>y\<rfloor> in digit_char d # frac_digits fuel (y - of_nat d))"

definition pow10 :: "int \<Rightarrow> rat" where
  "pow10 e = (if 0 \<le> e then 10 ^ nat e else 1 / 10 ^ nat (- e))"

definition decimal_text :: "rat \<Rightarrow> string" where
  \<comment> \<open>a value \<open>a \<ge> 0\<close> in decimal notation\<close>
  "decimal_text a =
     (let ip = nat \<lfloor>a\<rfloor>; fp = frac_digits 20 (a - of_nat ip)
      in show_nat ip @ (if fp = [] then [] else CHR ''.'' # fp))"

definition exponent_text :: "rat \<Rightarrow> int \<Rightarrow> string" where
  \<comment> \<open>a value \<open>a\<close> with \<open>10^n \<le> a < 10^(n+1)\<close> in exponent notation\<close>
  "exponent_text a n =
     decimal_text (a * pow10 (- n)) @ ''e'' @ (if 0 \<le> n then ''+'' else ''-'') @
     show_nat (nat \<bar>n\<bar>)"

fun small_exponent :: "nat \<Rightarrow> rat \<Rightarrow> nat \<Rightarrow> nat" where
  \<comment> \<open>the least \<open>j \<ge> k\<close> with \<open>1 \<le> a * 10^j\<close>, looking at most \<open>fuel\<close> steps ahead\<close>
  "small_exponent 0 a k = k"
| "small_exponent (Suc fuel) a k =
     (if 1 \<le> a * 10 ^ k then k else small_exponent fuel a (Suc k))"

definition Number_toString :: "jsnum \<Rightarrow> string" where
  \<comment> \<open>decimal notation from \<open>1e-6\<close> up to \<open>1e21\<close>, exponent notation outside\<close>
  "Number_toString n =
     (case n of
        NaN \<Rightarrow> ''NaN''
      | PosInf \<Rightarrow> ''Infinity''
      | NegInf \<Rightarrow> ''-Infinity''
      | Fin r \<Rightarrow>
          (let a = \<bar>r\<bar>
           in (if r < 0 then ''-'' else []) @
              (if 10 ^ 21 \<le> a
               then exponent_text a (int (length (show_nat (nat \<lfloor>a\<rfloor>))) - 1)
               else if 0 < a \<and> a < 1 / 10 ^ 6
               then exponent_text a
                      (- int (small_exponent
                                (length (show_nat (nat (snd (quotient_of a))))) a 0))
               else decimal_text a)))"

fun ToString :: "jsval \<Rightarrow> string" where
  "ToString JUndefined = ''undefined''"
| "ToString JNull = ''null''"
| "ToString (JBool b) = (if b then ''true'' else ''false'')"
| "ToString (JNumber n) = Number_toString n"
| "ToString (JString s) = s"

subsection \<open>String to number\<close>

definition scan_exponent :: "string \<Rightarrow> int \<times> string" where
  \<comment> \<open>ExponentPart, if a complete one starts the string; otherwise nothing is consumed\<close>
  "scan_exponent s =
     (case s of
        [] \<Rightarrow> (0, s)
      | c # t \<Rightarrow>
          if c = CHR ''e'' \<or> c = CHR ''E'' then
            (let neg = (take 1 t = ''-'');
                 t1 = (if take 1 t = ''-'' \<or> take 1 t = ''+'' then drop 1 t else t);
                 ed = takeWhile (is_digit 10) t1
             in if ed = [] then (0, s)
                else ((if neg then - int (digits_value 10 ed) else int (digits_value 10 ed)),
                      dropWhile (is_digit 10) t1))
          else (0, s))"

definition scan_unsigned :: "string \<Rightarrow> jsnum \<times> string" where
  \<comment> \<open>the longest prefix that is a StrUnsignedDecimalLiteral: its value and the rest;
      \<open>NaN\<close> when no prefix is one\<close>
  "scan_unsigned s =
     (if take 8 s = ''Infinity'' then (PosInf, drop 8 s)
      else
        let ip = takeWhile (is_digit 10) s;
            r1 = dropWhile (is_digit 10) s;
            dot = (take 1 r1 = ''.'');
            fp = (if dot then takeWhile (is_digit 10) (drop 1 r1) else []);
            r2 = (if dot then dropWhile (is_digit 10) (drop 1 r1) else r1)
        in if ip = [] \<and> fp = [] then (NaN, s)
           else
             let (e, r3) = scan_exponent r2
             in (Fin (of_nat (digits_value 10 (ip @ fp)) / 10 ^ length fp * pow10 e), r3))"

fun js_neg :: "jsnum \<Rightarrow> jsnum" where
  "js_neg NaN = NaN"
| "js_neg PosInf = NegInf"
| "js_neg NegInf = PosInf"
| "js_neg (Fin r) = Fin (- r)"

definition scan_decimal :: "string \<Rightarrow> jsnum \<times> string" where
  \<comment> \<open>StrDecimalLiteral: an optional sign, then an unsigned literal\<close>
  "scan_decimal s =
     (if take 1 s = ''-'' then (let (v, r) = scan_unsigned (drop 1 s) in (js_neg v, r))
      else if take 1 s = ''+'' then scan_unsigned (drop 1 s)
      else scan_unsigned s)"

definition parseFloat_str :: "string \<Rightarrow> jsnum" where
  "parseFloat_str inputString = fst (scan_decimal (dropWhile is_space inputString))"

definition parseInt_str :: "string \<Rightarrow> jsnum" where
  \<comment> \<open>\<^verbatim>\<open>parseInt(string)\<close> with no radix: base 10, or 16 after a \<^verbatim>\<open>0x\<close> prefix\<close>
  "parseInt_str inputString =
     (let S = dropWhile is_space inputString;
          neg = (take 1 S = ''-'');
          S1 = (if take 1 S = ''-'' \<or> take 1 S = ''+'' then drop 1 S else S);
          hex = (take 2 S1 = ''0x'' \<or> take 2 S1 = ''0X'');
          R = (if hex then 16 else 10);
          S2 = (if hex then drop 2 S1 else S1);
          Z = takeWhile (is_digit R) S2
      in if Z = [] then NaN
         else Fin (of_int (if neg then - int (digits_value R Z) else int (digits_value R Z))))"

definition radix_literal :: "nat \<Rightarrow> string \<Rightarrow> jsnum" where
  \<comment> \<open>the digits of a NonDecimalIntegerLiteral, after its two-character prefix\<close>
  "radix_literal R ds =
     (if ds \<noteq> [] \<and> list_all (is_digit R) ds then Fin (of_nat (digits_value R ds)) else NaN)"

definition StringToNumber :: "string \<Rightarrow> jsnum" where
  "StringToNumber s =
     (let T = rev (dropWhile is_space (rev (dropWhile is_space s)))
      in if T = [] then Fin 0
         else if take 2 T = ''0x'' \<or> take 2 T = ''0X'' then radix_literal 16 (drop 2 T)
         else if take 2 T = ''0o'' \<or> take 2 T = ''0O'' then radix_literal 8 (drop 2 T)
         else if take 2 T = ''0b'' \<or> take 2 T = ''0B'' then radix_literal 2 (drop 2 T)
         else let (v, r) = scan_decimal T in if r = [] then v else NaN)"

fun ToNumber :: "jsval \<Rightarrow> jsnum" where
  "ToNumber JUndefined = NaN"
| "ToNumber JNull = Fin 0"
| "ToNumber (JBool b) = (if b then Fin 1 else Fin 0)"
| "ToNumber (JNumber n) = n"
| "ToNumber (JString s) = StringToNumber s"

definition isNaN :: "jsval \<Rightarrow> bool" where
  "isNaN v = (ToNumber v = NaN)"

definition parseInt :: "jsval \<Rightarrow> jsnum" where
  "parseInt v = parseInt_str (ToString v)"

definition parseFloat :: "jsval \<Rightarrow> jsnum" where
  "parseFloat v = parseFloat_str (ToString v)"

subsection \<open>Arithmetic on numbers\<close>

fun Math_max :: "jsnum \<Rightarrow> jsnum \<Rightarrow> jsnum" where
  "Math_max NaN _ = NaN"
| "Math_max _ NaN = NaN"
| "Math_max PosInf _ = PosInf"
| "Math_max _ PosInf = PosInf"
| "Math_max NegInf b = b"
| "Math_max a NegInf = a"
| "Math_max (Fin x) (Fin y) = Fin (max x y)"

fun Math_min :: "jsnum \<Rightarrow> jsnum \<Rightarrow> jsnum" where
  "Math_min NaN _ = NaN"
| "Math_min _ NaN = NaN"
| "Math_min NegInf _ = NegInf"
| "Math_min _ NegInf = NegInf"
| "Math_min PosInf b = b"
| "Math_min a PosInf = a"
| "Math_min (Fin x) (Fin y) = Fin (min x y)"

fun js_sub :: "jsnum \<Rightarrow> jsnum \<Rightarrow> jsnum" where
  "js_sub NaN _ = NaN"
| "js_sub _ NaN = NaN"
| "js_sub PosInf PosInf = NaN"
| "js_sub NegInf NegInf = NaN"
| "js_sub PosInf _ = PosInf"
| "js_sub NegInf _ = NegInf"
| "js_sub (Fin x) PosInf = NegInf"
| "js_sub (Fin x) NegInf = PosInf"
| "js_sub (Fin x) (Fin y) = Fin (x - y)"

fun js_sgn :: "jsnum \<Rightarrow> int" where
  "js_sgn NaN = 0"
| "js_sgn PosInf = 1"
| "js_sgn NegInf = - 1"
| "js_sgn (Fin r) = (if r < 0 then - 1 else if r = 0 then 0 else 1)"

fun js_mul :: "jsnum \<Rightarrow> jsnum \<Rightarrow> jsnum" where
  "js_mul NaN _ = NaN"
| "js_mul _ NaN = NaN"
| "js_mul (Fin x) (Fin y) = Fin (x * y)"
| "js_mul a b =
     (if js_sgn a * js_sgn b = 0 then NaN else if js_sgn a * js_sgn b < 0 then NegInf else PosInf)"

fun js_div :: "jsnum \<Rightarrow> jsnum \<Rightarrow> jsnum" where
  "js_div NaN _ = NaN"
| "js_div _ NaN = NaN"
| "js_div (Fin x) (Fin y) =
     (if y \<noteq> 0 then Fin (x / y) else if x = 0 then NaN else if x < 0 then NegInf else PosInf)"
| "js_div (Fin x) _ = Fin 0"
| "js_div a (Fin y) = (if (js_sgn a < 0) \<noteq> (y < 0) then NegInf else PosInf)"
| "js_div _ _ = NaN"

fun Math_ceil :: "jsnum \<Rightarrow> jsnum" where
  "Math_ceil (Fin x) = Fin (of_int \<lceil>x\<rceil>)"
| "Math_ceil n = n"

section \<open>The table and the statements sent to the storage engine\<close>

text \<open>
  \<^verbatim>\<open>DB/schema.js\<close> declares one table, \<^verbatim>\<open>sales_data\<close>, with eight columns and no key.
  A row holds one value per column: \<open>varchar\<close> as a string, \<open>integer\<close> as an integer,
  \<open>timestamp\<close> as milliseconds since the epoch, \<open>numeric(10, 2)\<close> as a count of
  hundredths. The two columns without \<^verbatim>\<open>notNull()\<close> are optional.
\<close>

record row =
  row_invoiceNo :: string
  row_stockCode :: string
  row_description :: "string option"
  row_quantity :: int
  row_invoiceDate :: int
  row_unitPrice :: int
  row_customerId :: "int option"
  row_country :: string

datatype column =
  InvoiceNo | StockCode | Description | Quantity | InvoiceDate | UnitPrice | CustomerId | Country

text \<open>
  \<^verbatim>\<open>salesData[name]\<close> is a property lookup on the object that \<^verbatim>\<open>pgTable\<close> returns. The
  object has the eight columns as its own properties; every other name is looked up
  along the prototype chain. \<^verbatim>\<open>Object.prototype\<close> ends every chain, and the class of the
  query builder stands before it. That class is not part of the repository, so the
  names under which it gives the object a truthy property are a parameter, \<open>lib\<close>.
  A property that is not a column is a function or an object, hence truthy.
\<close>

datatype property = Column column | Inherited string

definition Object_prototype :: "string list" where
  "Object_prototype =
     [''constructor'', ''__defineGetter__'', ''__defineSetter__'', ''hasOwnProperty'',
      ''__lookupGetter__'', ''__lookupSetter__'', ''isPrototypeOf'', ''propertyIsEnumerable'',
      ''toString'', ''valueOf'', ''__proto__'', ''toLocaleString'']"

definition declared :: "(string \<times> column) list" where
  \<comment> \<open>the properties that \<^verbatim>\<open>DB/schema.js\<close> gives the table, with their columns\<close>
  "declared =
     [(''invoiceNo'', InvoiceNo), (''stockCode'', StockCode), (''description'', Description),
      (''quantity'', Quantity), (''invoiceDate'', InvoiceDate), (''unitPrice'', UnitPrice),
      (''customerId'', CustomerId), (''country'', Country)]"

definition salesData :: "(string \<Rightarrow> bool) \<Rightarrow> string \<Rightarrow> property option" where
  "salesData lib name =
     (case map_of declared name of
        Some c \<Rightarrow> Some (Column c)
      | None \<Rightarrow>
          if name \<in> set Object_prototype \<or> lib name then Some (Inherited name) else None)"

datatype cell = CNull | CText string | CInt int | CTime int | CDec int

fun cell_of :: "column \<Rightarrow> row \<Rightarrow> cell" where
  "cell_of InvoiceNo r = CText (row_invoiceNo r)"
| "cell_of StockCode r = CText (row_stockCode r)"
| "cell_of Description r = (case row_description r of None \<Rightarrow> CNull | Some s \<Rightarrow> CText s)"
| "cell_of Quantity r = CInt (row_quantity r)"
| "cell_of InvoiceDate r = CTime (row_invoiceDate r)"
| "cell_of UnitPrice r = CDec (row_unitPrice r)"
| "cell_of CustomerId r = (case row_customerId r of None \<Rightarrow> CNull | Some n \<Rightarrow> CInt n)"
| "cell_of Country r = CText (row_country r)"

text \<open>
  The expressions the handlers build with \<^verbatim>\<open>eq\<close>, \<^verbatim>\<open>gte\<close>, \<^verbatim>\<open>lte\<close> and \<^verbatim>\<open>and\<close>. An operand
  is the JavaScript value the handler passes, or the \<^verbatim>\<open>Date\<close> object \<^verbatim>\<open>new Date(v)\<close>, kept as
  a term because parsing a date belongs to the JavaScript engine.
\<close>

datatype jsdate = NewDate jsval

datatype operand = OVal jsval | ODate jsdate

datatype sqlexpr =
  Eq column operand | Gte column operand | Lte column operand | And "sqlexpr list"

datatype order_by = Asc property | Desc property

record select_stmt =
  sel_where :: "sqlexpr option"
  sel_orderBy :: "order_by option"
  sel_limit :: "jsnum option"
  sel_offset :: "jsnum option"

subsection \<open>How the engine evaluates them\<close>

text \<open>
  Modelled from the spec: \<^verbatim>\<open>config/db.js\<close> builds the storage handle \<^verbatim>\<open>db\<close> by calling
  \<^verbatim>\<open>neon\<close> and \<^verbatim>\<open>drizzle\<close>; the query builder, the driver and the engine behind them are
  not among the sources. The specification calls them the storage collaborator, a
  relational engine that executes a filtered, sorted and paginated select, a count with
  a predicate, an aggregate select, a select by key, and insert, update and delete
  returning the rows. The model below is the SQL reading of the statements the handlers
  build:
  \<^item> \<open>dateOf v\<close> is the time value of \<^verbatim>\<open>new Date(v)\<close>, \<open>None\<close> for an invalid date. It is a
    parameter: the date parser belongs to the JavaScript engine.
  \<^item> An operand must fit its column: a string for \<open>varchar\<close>, an integer of 32 bits for
    \<open>integer\<close>, a valid date for \<open>timestamp\<close>. A statement with an operand that does
    not fit fails. The handlers build no other kind of comparison.
  \<^item> A comparison with \<open>NULL\<close> does not hold.
  \<^item> \<open>ORDER BY\<close> puts \<open>NULL\<close> last ascending and first descending; rows with equal keys
    keep their order; strings compare bytewise.
  \<^item> The query builder leaves out a \<open>LIMIT\<close> or \<open>OFFSET\<close> that is not a number.
  \<^item> What becomes of an \<open>ORDER BY\<close> over a property that is not a column is not fixed
    by the sources: \<open>db_takes_order d name\<close> tells whether the builder and the engine
    accept it for the inherited property \<open>name\<close>. If they do, it orders nothing.
  \<^item> A statement on a database that is not reachable fails.
\<close>

record db =
  db_rows :: "row list"
  db_online :: bool
  db_takes_order :: "string \<Rightarrow> bool"

datatype storage_error = StorageError string string

fun err_code :: "storage_error \<Rightarrow> string" where
  "err_code (StorageError c m) = c"

fun err_message :: "storage_error \<Rightarrow> string" where
  "err_message (StorageError c m) = m"

definition is_int4 :: "rat \<Rightarrow> bool" where
  "is_int4 x = (of_int \<lfloor>x\<rfloor> = x \<and> - (2 ^ 31) \<le> x \<and> x < 2 ^ 31)"

fun coerce :: "(jsval \<Rightarrow> int option) \<Rightarrow> column \<Rightarrow> operand \<Rightarrow> cell option" where
  "coerce dateOf InvoiceNo (OVal (JString s)) = Some (CText s)"
| "coerce dateOf StockCode (OVal (JString s)) = Some (CText s)"
| "coerce dateOf Description (OVal (JString s)) = Some (CText s)"
| "coerce dateOf Country (OVal (JString s)) = Some (CText s)"
| "coerce dateOf Quantity (OVal (JNumber (Fin x))) =
     (if is_int4 x then Some (CInt \<lfloor>x\<rfloor>) else None)"
| "coerce dateOf CustomerId (OVal (JNumber (Fin x))) =
     (if is_int4 x then Some (CInt \<lfloor>x\<rfloor>) else None)"
| "coerce dateOf InvoiceDate (ODate (NewDate v)) = map_option CTime (dateOf v)"
| "coerce dateOf _ _ = None"

fun cell_le :: "cell \<Rightarrow> cell \<Rightarrow> bool" where
  "cell_le (CText a) (CText b) = (a \<le> b)"
| "cell_le (CInt a) (CInt b) = (a \<le> b)"
| "cell_le (CTime a) (CTime b) = (a \<le> b)"
| "cell_le (CDec a) (CDec b) = (a \<le> b)"
| "cell_le _ _ = False"

fun valid_expr :: "(jsval \<Rightarrow> int option) \<Rightarrow> sqlexpr \<Rightarrow> bool" where
  "valid_expr dateOf (Eq c v) = (coerce dateOf c v \<noteq> None)"
| "valid_expr dateOf (Gte c v) = (coerce dateOf c v \<noteq> None)"
| "valid_expr dateOf (Lte c v) = (coerce dateOf c v \<noteq> None)"
| "valid_expr dateOf (And es) = (\<forall>e \<in> set es. valid_expr dateOf e)"

fun holds :: "(jsval \<Rightarrow> int option) \<Rightarrow> sqlexpr \<Rightarrow> row \<Rightarrow> bool" where
  "holds dateOf (Eq c v) r = (coerce dateOf c v = Some (cell_of c r))"
| "holds dateOf (Gte c v) r =
     (case coerce dateOf c v of None \<Rightarrow> False | Some x \<Rightarrow> cell_le x (cell_of c r))"
| "holds dateOf (Lte c v) r =
     (case coerce dateOf c v of None \<Rightarrow> False | Some x \<Rightarrow> cell_le (cell_of c r) x)"
| "holds dateOf (And es) r = (\<forall>e \<in> set es. holds dateOf e r)"

definition where_valid :: "(jsval \<Rightarrow> int option) \<Rightarrow> sqlexpr option \<Rightarrow> bool" where
  "where_valid dateOf w = (case w of None \<Rightarrow> True | Some e \<Rightarrow> valid_expr dateOf e)"

definition matching :: "(jsval \<Rightarrow> int option) \<Rightarrow> sqlexpr option \<Rightarrow> row list \<Rightarrow> row list" where
  \<comment> \<open>the rows a \<open>WHERE\<close> clause keeps; without one, all of them\<close>
  "matching dateOf w rows = (case w of None \<Rightarrow> rows | Some e \<Rightarrow> filter (holds dateOf e) rows)"

definition asc_le :: "cell \<Rightarrow> cell \<Rightarrow> bool" where
  "asc_le a b = (b = CNull \<or> (a \<noteq> CNull \<and> cell_le a b))"

definition order_le :: "bool \<Rightarrow> column \<Rightarrow> row \<Rightarrow> row \<Rightarrow> bool" where
  \<comment> \<open>\<open>r1\<close> may stand before \<open>r2\<close>, ascending or descending by column \<open>c\<close>\<close>
  "order_le ascending c r1 r2 =
     (if ascending then asc_le (cell_of c r1) (cell_of c r2)
      else asc_le (cell_of c r2) (cell_of c r1))"

fun insert_by :: "('a \<Rightarrow> 'a \<Rightarrow> bool) \<Rightarrow> 'a \<Rightarrow> 'a list \<Rightarrow> 'a list" where
  "insert_by le x [] = [x]"
| "insert_by le x (y # ys) = (if le x y then x # y # ys else y # insert_by le x ys)"

definition sort_by :: "('a \<Rightarrow> 'a \<Rightarrow> bool) \<Rightarrow> 'a list \<Rightarrow> 'a list" where
  "sort_by le xs = foldr (insert_by le) xs []"

fun ordered :: "order_by option \<Rightarrow> row list \<Rightarrow> row list" where
  "ordered None rows = rows"
| "ordered (Some (Asc (Column c))) rows = sort_by (order_le True c) rows"
| "ordered (Some (Desc (Column c))) rows = sort_by (order_le False c) rows"
| "ordered (Some (Asc (Inherited name))) rows = rows"
| "ordered (Some (Desc (Inherited name))) rows = rows"

fun order_taken :: "db \<Rightarrow> order_by option \<Rightarrow> bool" where
  "order_taken d (Some (Asc (Inherited name))) = db_takes_order d name"
| "order_taken d (Some (Desc (Inherited name))) = db_takes_order d name"
| "order_taken d _ = True"

definition row_count :: "jsnum option \<Rightarrow> nat option" where
  \<comment> \<open>the row count of a \<open>LIMIT\<close> or \<open>OFFSET\<close> clause, when the clause is written\<close>
  "row_count n = (case n of Some (Fin x) \<Rightarrow> if 0 \<le> x then Some (nat \<lfloor>x\<rfloor>) else None | _ \<Rightarrow> None)"

definition limited :: "jsnum option \<Rightarrow> row list \<Rightarrow> row list" where
  "limited n rows = (case row_count n of None \<Rightarrow> rows | Some k \<Rightarrow> take k rows)"

definition skipped :: "jsnum option \<Rightarrow> row list \<Rightarrow> row list" where
  "skipped n rows = (case row_count n of None \<Rightarrow> rows | Some k \<Rightarrow> drop k rows)"

definition unreachable :: storage_error where
  "unreachable = StorageError ''08006'' ''connection failure''"

definition rejected :: storage_error where
  "rejected = StorageError ''22P02'' ''invalid input value''"

definition run_select ::
  "(jsval \<Rightarrow> int option) \<Rightarrow> db \<Rightarrow> select_stmt \<Rightarrow> storage_error + row list" where
  "run_select dateOf d st =
     (if \<not> db_online d then Inl unreachable
      else if \<not> where_valid dateOf (sel_where st) then Inl rejected
      else if \<not> order_taken d (sel_orderBy st) then Inl rejected
      else Inr (limited (sel_limit st) (skipped (sel_offset st)
                  (ordered (sel_orderBy st) (matching dateOf (sel_where st) (db_rows d))))))"

definition run_count ::
  "(jsval \<Rightarrow> int option) \<Rightarrow> db \<Rightarrow> sqlexpr option \<Rightarrow> storage_error + nat" where
  \<comment> \<open>\<^verbatim>\<open>select count(*) ... where w\<close>\<close>
  "run_count dateOf d w =
     (if \<not> db_online d then Inl unreachable
      else if \<not> where_valid dateOf w then Inl rejected
      else Inr (length (matching dateOf w (db_rows d))))"

definition unmatched :: "(jsval \<Rightarrow> int option) \<Rightarrow> sqlexpr option \<Rightarrow> row list \<Rightarrow> row list" where
  "unmatched dateOf w rows =
     (case w of None \<Rightarrow> [] | Some e \<Rightarrow> filter (\<lambda>r. \<not> holds dateOf e r) rows)"

definition run_delete ::
  "(jsval \<Rightarrow> int option) \<Rightarrow> db \<Rightarrow> sqlexpr option \<Rightarrow> storage_error + (row list \<times> db)" where
  \<comment> \<open>\<^verbatim>\<open>delete ... where w returning *\<close>: the rows removed, and the table without them\<close>
  "run_delete dateOf d w =
     (if \<not> db_online d then Inl unreachable
      else if \<not> where_valid dateOf w then Inl rejected
      else Inr (matching dateOf w (db_rows d), d\<lparr>db_rows := unmatched dateOf w (db_rows d)\<rparr>))"

text \<open>
  The aggregate row of the summary. Over no rows \<open>SUM\<close> and \<open>AVG\<close> are \<open>NULL\<close> and
  \<open>count(*)\<close> is 0. Over some rows the query builder returns the sums and the average as
  text and the count as a number. \<open>SUM(quantity * unit_price)\<close> has two decimals;
  the text of an average depends on the scale the engine chooses, so \<open>avg_text\<close> is a
  parameter.
\<close>

record summary_row =
  sr_totalSales :: jsval
  sr_totalQuantity :: jsval
  sr_totalOrders :: jsval
  sr_averageOrderValue :: jsval

definition int_text :: "int \<Rightarrow> string" where
  "int_text n = (if n < 0 then ''-'' else []) @ show_nat (nat \<bar>n\<bar>)"

definition cents_text :: "int \<Rightarrow> string" where
  "cents_text c =
     (if c < 0 then ''-'' else []) @ show_nat (nat \<bar>c\<bar> div 100) @ ''.'' @
     [digit_char (nat \<bar>c\<bar> mod 100 div 10), digit_char (nat \<bar>c\<bar> mod 10)]"

definition aggregate :: "(rat \<Rightarrow> string) \<Rightarrow> row list \<Rightarrow> summary_row" where
  "aggregate avg_text rs =
     (let sales = sum_list (map (\<lambda>r. row_quantity r * row_unitPrice r) rs)
      in \<lparr>sr_totalSales = (if rs = [] then JNull else JString (cents_text sales)),
          sr_totalQuantity =
            (if rs = [] then JNull else JString (int_text (sum_list (map row_quantity rs)))),
          sr_totalOrders = JNumber (Fin (of_nat (length rs))),
          sr_averageOrderValue =
            (if rs = [] then JNull
             else JString (avg_text (of_int sales / (100 * of_nat (length rs)))))\<rparr>)"

definition run_summary ::
  "(jsval \<Rightarrow> int option) \<Rightarrow> (rat \<Rightarrow> string) \<Rightarrow> db \<Rightarrow> sqlexpr option \<Rightarrow>
     storage_error + summary_row list" where
  "run_summary dateOf avg_text d w =
     (if \<not> db_online d then Inl unreachable
      else if \<not> where_valid dateOf w then Inl rejected
      else Inr [aggregate avg_text (matching dateOf w (db_rows d))])"

section \<open>Requests and responses\<close>

text \<open>
  \<^verbatim>\<open>req.query\<close> maps a parameter name to the string given for it; a parameter given
  several times or with brackets (an array or a nested object) is not modelled.
  \<^verbatim>\<open>req.body\<close> maps a field name to its JSON value, \<open>JUndefined\<close> when the field is absent.
\<close>

type_synonym query = "string \<Rightarrow> string option"

type_synonym body = "string \<Rightarrow> jsval"

definition param :: "string option \<Rightarrow> jsval" where
  "param p = (case p of None \<Rightarrow> JUndefined | Some s \<Rightarrow> JString s)"

definition or_default :: "jsval \<Rightarrow> jsval \<Rightarrow> jsval" where
  \<comment> \<open>a destructuring default \<^verbatim>\<open>{ name = d }\<close>: used when the property is \<^verbatim>\<open>undefined\<close>\<close>
  "or_default d v = (if v = JUndefined then d else v)"

definition js_or :: "jsval \<Rightarrow> jsval \<Rightarrow> jsval" where
  \<comment> \<open>\<^verbatim>\<open>a || b\<close>\<close>
  "js_or a b = (if truthy a then a else b)"

record pagination =
  pg_page :: jsnum
  pg_limit :: jsnum
  pg_total :: jsnum
  pg_totalPages :: jsnum

record summary =
  totalSales :: jsnum
  totalQuantity :: jsnum
  totalOrders :: jsnum
  averageOrderValue :: jsnum

datatype payload = Records "row list" | Record row | Summary summary

record response =
  res_status :: nat
  res_success :: bool
  res_message :: "string option"
  res_data :: "payload option"
  res_pagination :: "pagination option"
  res_error :: "string option"

definition failure :: "nat \<Rightarrow> string \<Rightarrow> response" where
  \<comment> \<open>\<^verbatim>\<open>res.status(n).json({ success: false, message })\<close>\<close>
  "failure n m =
     \<lparr>res_status = n, res_success = False, res_message = Some m, res_data = None,
      res_pagination = None, res_error = None\<rparr>"

definition server_error :: "string \<Rightarrow> storage_error \<Rightarrow> response" where
  \<comment> \<open>the \<^verbatim>\<open>catch\<close> branch: status 500 with the message of the error\<close>
  "server_error m e = (failure 500 m)\<lparr>res_error := Some (err_message e)\<rparr>"

section \<open>The route handlers\<close>

subsection \<open>\<^verbatim>\<open>GET /\<close>: list\<close>

definition list_pageNum :: "query \<Rightarrow> jsnum" where
  "list_pageNum query =
     (let page = or_default (JNumber (Fin 1)) (param (query ''page''))
      in Math_max (Fin 1) (parseInt page))"

definition list_limitNum :: "query \<Rightarrow> jsnum" where
  "list_limitNum query =
     (let limit = or_default (JNumber (Fin 50)) (param (query ''limit''))
      in Math_min (Fin 1000) (Math_max (Fin 1) (parseInt limit)))"

definition list_offset :: "query \<Rightarrow> jsnum" where
  "list_offset query = js_mul (js_sub (list_pageNum query) (Fin 1)) (list_limitNum query)"

definition list_conditions :: "query \<Rightarrow> sqlexpr list" where
  "list_conditions query =
     (let country = param (query ''country'');
          customerId = param (query ''customerId'');
          startDate = param (query ''startDate'');
          endDate = param (query ''endDate'');
          c0 = [];
          c1 = (if truthy country then c0 @ [Eq Country (OVal country)] else c0);
          c2 = (if truthy customerId
                then c1 @ [Eq CustomerId (OVal (JNumber (parseInt customerId)))] else c1);
          c3 = (if truthy startDate then c2 @ [Gte InvoiceDate (ODate (NewDate startDate))] else c2);
          c4 = (if truthy endDate then c3 @ [Lte InvoiceDate (ODate (NewDate endDate))] else c3)
      in c4)"

definition where_of :: "sqlexpr list \<Rightarrow> sqlexpr option" where
  \<comment> \<open>\<^verbatim>\<open>conditions.length > 0 ? and(...conditions) : undefined\<close>\<close>
  "where_of conditions = (if length conditions > 0 then Some (And conditions) else None)"

definition sortField :: "(string \<Rightarrow> bool) \<Rightarrow> query \<Rightarrow> property" where
  \<comment> \<open>\<^verbatim>\<open>salesData[sortBy] || salesData.invoiceDate\<close>: a property that is found is truthy\<close>
  "sortField lib query =
     (let sortBy = or_default (JString ''invoiceDate'') (param (query ''sortBy''))
      in case salesData lib (ToString sortBy) of Some p \<Rightarrow> p | None \<Rightarrow> Column InvoiceDate)"

definition orderBy :: "(string \<Rightarrow> bool) \<Rightarrow> query \<Rightarrow> order_by" where
  "orderBy lib query =
     (let sortOrder = or_default (JString ''desc'') (param (query ''sortOrder''))
      in if sortOrder = JString ''asc'' then Asc (sortField lib query)
         else Desc (sortField lib query))"

definition list_records_stmt :: "(string \<Rightarrow> bool) \<Rightarrow> query \<Rightarrow> select_stmt" where
  "list_records_stmt lib query =
     \<lparr>sel_where = where_of (list_conditions query), sel_orderBy = Some (orderBy lib query),
      sel_limit = Some (list_limitNum query), sel_offset = Some (list_offset query)\<rparr>"

definition list_count_where :: "query \<Rightarrow> sqlexpr option" where
  "list_count_where query = where_of (list_conditions query)"

text \<open>
  The two statements are issued together with \<^verbatim>\<open>Promise.all\<close>; the model runs both on the
  same state of the table.
\<close>

definition list_handler ::
  "(string \<Rightarrow> bool) \<Rightarrow> (jsval \<Rightarrow> int option) \<Rightarrow> db \<Rightarrow> query \<Rightarrow> response" where
  "list_handler lib dateOf d query =
     (case run_select dateOf d (list_records_stmt lib query) of
        Inl e \<Rightarrow> server_error ''Failed to fetch sales records'' e
      | Inr records \<Rightarrow>
          (case run_count dateOf d (list_count_where query) of
             Inl e \<Rightarrow> server_error ''Failed to fetch sales records'' e
           | Inr n \<Rightarrow>
               (let total = JNumber (Fin (of_nat n));
                    totalPages = Math_ceil (js_div (ToNumber total) (list_limitNum query))
                in \<lparr>res_status = 200, res_success = True, res_message = None,
                    res_data = Some (Records records),
                    res_pagination = Some
                      \<lparr>pg_page = list_pageNum query, pg_limit = list_limitNum query,
                       pg_total = parseInt total, pg_totalPages = totalPages\<rparr>,
                    res_error = None\<rparr>)))"

subsection \<open>\<^verbatim>\<open>GET /analytics/top-products\<close>: the page size and the filter\<close>

definition top_limitNum :: "query \<Rightarrow> jsnum" where
  "top_limitNum query =
     (let limit = or_default (JNumber (Fin 10)) (param (query ''limit''))
      in Math_min (Fin 100) (Math_max (Fin 1) (parseInt limit)))"

definition top_conditions :: "query \<Rightarrow> sqlexpr list" where
  "top_conditions query =
     (let startDate = param (query ''startDate'');
          endDate = param (query ''endDate'');
          c0 = [];
          c1 = (if truthy startDate then c0 @ [Gte InvoiceDate (ODate (NewDate startDate))] else c0);
          c2 = (if truthy endDate then c1 @ [Lte InvoiceDate (ODate (NewDate endDate))] else c1)
      in c2)"

subsection \<open>\<^verbatim>\<open>GET /analytics/summary\<close>\<close>

definition summary_conditions :: "query \<Rightarrow> sqlexpr list" where
  "summary_conditions query =
     (let startDate = param (query ''startDate'');
          endDate = param (query ''endDate'');
          country = param (query ''country'');
          c0 = [];
          c1 = (if truthy startDate then c0 @ [Gte InvoiceDate (ODate (NewDate startDate))] else c0);
          c2 = (if truthy endDate then c1 @ [Lte InvoiceDate (ODate (NewDate endDate))] else c1);
          c3 = (if truthy country then c2 @ [Eq Country (OVal country)] else c2)
      in c3)"

definition summary_handler ::
  "(jsval \<Rightarrow> int option) \<Rightarrow> (rat \<Rightarrow> string) \<Rightarrow> db \<Rightarrow> query \<Rightarrow> response" where
  "summary_handler dateOf avg_text d query =
     (case run_summary dateOf avg_text d (where_of (summary_conditions query)) of
        Inl e \<Rightarrow> server_error ''Failed to fetch sales analytics'' e
      | Inr result \<Rightarrow>
          (case result of
             [] \<Rightarrow> server_error ''Failed to fetch sales analytics''
                    (StorageError [] ''Cannot read properties of undefined'')
           | summary # _ \<Rightarrow>
               \<lparr>res_status = 200, res_success = True, res_message = None,
                res_data = Some (Summary
                  \<lparr>totalSales = parseFloat (js_or (sr_totalSales summary) (JNumber (Fin 0))),
                   totalQuantity = parseInt (js_or (sr_totalQuantity summary) (JNumber (Fin 0))),
                   totalOrders = parseInt (js_or (sr_totalOrders summary) (JNumber (Fin 0))),
                   averageOrderValue =
                     parseFloat (js_or (sr_averageOrderValue summary) (JNumber (Fin 0)))\<rparr>),
                res_pagination = None, res_error = None\<rparr>))"

subsection \<open>\<^verbatim>\<open>GET /:invoiceNo/:stockCode\<close>: get one\<close>

text \<open>
  The two path parameters are strings. The router declares the analytics routes first,
  so \<^verbatim>\<open>GET /analytics/summary\<close> and \<^verbatim>\<open>GET /analytics/top-products\<close> never reach this
  handler; it runs for every other pair.
\<close>

definition key_where :: "string \<Rightarrow> string \<Rightarrow> sqlexpr" where
  \<comment> \<open>\<^verbatim>\<open>and(eq(salesData.invoiceNo, invoiceNo), eq(salesData.stockCode, stockCode))\<close>\<close>
  "key_where invoiceNo stockCode =
     And [Eq InvoiceNo (OVal (JString invoiceNo)), Eq StockCode (OVal (JString stockCode))]"

definition get_stmt :: "string \<Rightarrow> string \<Rightarrow> select_stmt" where
  "get_stmt invoiceNo stockCode =
     \<lparr>sel_where = Some (key_where invoiceNo stockCode), sel_orderBy = None,
      sel_limit = Some (Fin 1), sel_offset = None\<rparr>"

definition get_handler :: "(jsval \<Rightarrow> int option) \<Rightarrow> db \<Rightarrow> string \<Rightarrow> string \<Rightarrow> response" where
  "get_handler dateOf d invoiceNo stockCode =
     (case run_select dateOf d (get_stmt invoiceNo stockCode) of
        Inl e \<Rightarrow> server_error ''Failed to fetch sales record'' e
      | Inr record \<Rightarrow>
          (case record of
             [] \<Rightarrow> failure 404 ''Sales record not found''
           | r # _ \<Rightarrow>
               \<lparr>res_status = 200, res_success = True, res_message = None,
                res_data = Some (Record r), res_pagination = None, res_error = None\<rparr>))"

subsection \<open>\<^verbatim>\<open>DELETE /:invoiceNo/:stockCode\<close>\<close>

definition delete_handler ::
  "(jsval \<Rightarrow> int option) \<Rightarrow> db \<Rightarrow> string \<Rightarrow> string \<Rightarrow> response \<times> db" where
  "delete_handler dateOf d invoiceNo stockCode =
     (case run_delete dateOf d (Some (key_where invoiceNo stockCode)) of
        Inl e \<Rightarrow> (server_error ''Failed to delete sales record'' e, d)
      | Inr (result, d') \<Rightarrow>
          (case result of
             [] \<Rightarrow> (failure 404 ''Sales record not found'', d')
           | r # _ \<Rightarrow>
               (\<lparr>res_status = 200, res_success = True,
                 res_message = Some ''Sales record deleted successfully'',
                 res_data = Some (Record r), res_pagination = None, res_error = None\<rparr>, d')))"

subsection \<open>\<^verbatim>\<open>POST /\<close>: create\<close>

text \<open>
  The values of an insert are JavaScript values; the driver and the engine turn them into
  a row, or refuse them. That conversion is not in the repository, so the execution of
  an \<open>INSERT\<close> or \<open>UPDATE\<close> is a parameter of the two handlers that write: a function from
  the statement and the database to an error or to the rows returned and the new
  database. \<open>ToFixed2 n\<close> stands for the text \<^verbatim>\<open>n.toFixed(2)\<close>.
\<close>

datatype numeric_text = ToFixed2 jsnum

record newRecord =
  nr_invoiceNo :: string
  nr_stockCode :: string
  nr_description :: jsval
  nr_quantity :: jsnum
  nr_invoiceDate :: jsdate
  nr_unitPrice :: numeric_text
  nr_customerId :: jsval
  nr_country :: string

record updateData =
  ud_description :: "jsval option"
  ud_quantity :: "jsnum option"
  ud_invoiceDate :: "jsdate option"
  ud_unitPrice :: "numeric_text option"
  ud_customerId :: "jsval option"
  ud_country :: "jsval option"

datatype stmt = Insert newRecord | Update updateData sqlexpr

record outcome =
  reply :: response
  store :: db
  issued :: "stmt list"

definition create_plan :: "body \<Rightarrow> response + newRecord" where
  \<comment> \<open>the handler up to the insert: a reply sent before it, or the record to insert\<close>
  "create_plan body =
     (let invoiceNo = body ''invoiceNo'';
          stockCode = body ''stockCode'';
          description = body ''description'';
          quantity = body ''quantity'';
          invoiceDate = body ''invoiceDate'';
          unitPrice = body ''unitPrice'';
          customerId = body ''customerId'';
          country = body ''country''
      in if \<not> truthy invoiceNo \<or> \<not> truthy stockCode \<or> \<not> truthy quantity \<or>
            \<not> truthy invoiceDate \<or> \<not> truthy unitPrice \<or> \<not> truthy country
         then Inl (failure 400
           ''Missing required fields: invoiceNo, stockCode, quantity, invoiceDate, unitPrice, country'')
         else if isNaN quantity \<or> isNaN (JNumber (parseFloat unitPrice))
         then Inl (failure 400 ''Quantity must be an integer and unitPrice must be a number'')
         else Inr
           \<lparr>nr_invoiceNo = ToString invoiceNo,
            nr_stockCode = ToString stockCode,
            nr_description = js_or description JNull,
            nr_quantity = parseInt quantity,
            nr_invoiceDate = NewDate invoiceDate,
            nr_unitPrice = ToFixed2 (parseFloat unitPrice),
            nr_customerId = (if truthy customerId then JNumber (parseInt customerId) else JNull),
            nr_country = ToString country\<rparr>)"

definition create_handler ::
  "(newRecord \<Rightarrow> db \<Rightarrow> storage_error + row list \<times> db) \<Rightarrow> db \<Rightarrow> body \<Rightarrow> outcome" where
  "create_handler exec_insert d body =
     (case create_plan body of
        Inl r \<Rightarrow> \<lparr>reply = r, store = d, issued = []\<rparr>
      | Inr newRecord \<Rightarrow>
          (case exec_insert newRecord d of
             Inl e \<Rightarrow>
               \<lparr>reply =
                  (if err_code e = ''23505''
                   then failure 400
                     ''Sales record with this invoice number and stock code already exists''
                   else server_error ''Failed to create sales record'' e),
                store = d, issued = [Insert newRecord]\<rparr>
           | Inr (result, d') \<Rightarrow>
               \<lparr>reply =
                  \<lparr>res_status = 201, res_success = True,
                   res_message = Some ''Sales record created successfully'',
                   res_data = (case result of [] \<Rightarrow> None | r # _ \<Rightarrow> Some (Record r)),
                   res_pagination = None, res_error = None\<rparr>,
                store = d', issued = [Insert newRecord]\<rparr>))"

subsection \<open>\<^verbatim>\<open>PUT /:invoiceNo/:stockCode\<close>: update\<close>

definition no_update :: updateData where
  \<comment> \<open>\<^verbatim>\<open>const updateData = {}\<close>\<close>
  "no_update =
     \<lparr>ud_description = None, ud_quantity = None, ud_invoiceDate = None, ud_unitPrice = None,
      ud_customerId = None, ud_country = None\<rparr>"

definition Object_keys :: "updateData \<Rightarrow> string list" where
  "Object_keys u =
     (if ud_description u \<noteq> None then [''description''] else []) @
     (if ud_quantity u \<noteq> None then [''quantity''] else []) @
     (if ud_invoiceDate u \<noteq> None then [''invoiceDate''] else []) @
     (if ud_unitPrice u \<noteq> None then [''unitPrice''] else []) @
     (if ud_customerId u \<noteq> None then [''customerId''] else []) @
     (if ud_country u \<noteq> None then [''country''] else [])"

definition update_plan :: "body \<Rightarrow> response + updateData" where
  \<comment> \<open>the handler up to the update: a reply sent before it, or the fields to set\<close>
  "update_plan body =
     (let description = body ''description'';
          quantity = body ''quantity'';
          invoiceDate = body ''invoiceDate'';
          unitPrice = body ''unitPrice'';
          customerId = body ''customerId'';
          country = body ''country'';
          u0 = no_update;
          u1 = (if description \<noteq> JUndefined then u0\<lparr>ud_description := Some description\<rparr> else u0)
      in if quantity \<noteq> JUndefined \<and> isNaN quantity
         then Inl (failure 400 ''Quantity must be a number'')
         else
           let u2 = (if quantity \<noteq> JUndefined then u1\<lparr>ud_quantity := Some (parseInt quantity)\<rparr>
                     else u1);
               u3 = (if invoiceDate \<noteq> JUndefined
                     then u2\<lparr>ud_invoiceDate := Some (NewDate invoiceDate)\<rparr> else u2)
           in if unitPrice \<noteq> JUndefined \<and> isNaN (JNumber (parseFloat unitPrice))
              then Inl (failure 400 ''Unit price must be a number'')
              else
                let u4 = (if unitPrice \<noteq> JUndefined
                          then u3\<lparr>ud_unitPrice := Some (ToFixed2 (parseFloat unitPrice))\<rparr> else u3);
                    u5 = (if customerId \<noteq> JUndefined
                          then u4\<lparr>ud_customerId := Some
                                 (if truthy customerId then JNumber (parseInt customerId) else JNull)\<rparr>
                          else u4);
                    u6 = (if country \<noteq> JUndefined then u5\<lparr>ud_country := Some country\<rparr> else u5)
                in if length (Object_keys u6) = 0
                   then Inl (failure 400 ''No fields provided for update'')
                   else Inr u6)"

definition update_handler ::
  "(updateData \<Rightarrow> sqlexpr \<Rightarrow> db \<Rightarrow> storage_error + row list \<times> db) \<Rightarrow>
     db \<Rightarrow> string \<Rightarrow> string \<Rightarrow> body \<Rightarrow> outcome" where
  "update_handler exec_update d invoiceNo stockCode body =
     (case update_plan body of
        Inl r \<Rightarrow> \<lparr>reply = r, store = d, issued = []\<rparr>
      | Inr updateData \<Rightarrow>
          (case exec_update updateData (key_where invoiceNo stockCode) d of
             Inl e \<Rightarrow>
               \<lparr>reply = server_error ''Failed to update sales record'' e, store = d,
                issued = [Update updateData (key_where invoiceNo stockCode)]\<rparr>
           | Inr (result, d') \<Rightarrow>
               \<lparr>reply =
                  (case result of
                     [] \<Rightarrow> failure 404 ''Sales record not found''
                   | r # _ \<Rightarrow>
                       \<lparr>res_status = 200, res_success = True,
                        res_message = Some ''Sales record updated successfully'',
                        res_data = Some (Record r), res_pagination = None, res_error = None\<rparr>),
                store = d', issued = [Update updateData (key_where invoiceNo stockCode)]\<rparr>))"

section \<open>The filter of the list, in the words of the specification\<close>



section \<open>The update set in closed form\<close>

text \<open>
  \<open>updatable\<close> lists the body fields the update handler reads. \<open>planned_update\<close> is the
  object the handler has built when it reaches the check for an empty update: one
  entry for each of those fields that the body holds.
\<close>

definition updatable :: "string list" where
  "updatable = [''description'', ''quantity'', ''invoiceDate'', ''unitPrice'', ''customerId'', ''country'']"

definition planned_update :: "body \<Rightarrow> updateData" where
  "planned_update body =
     \<lparr>ud_description =
        (if body ''description'' \<noteq> JUndefined then Some (body ''description'') else None),
      ud_quantity =
        (if body ''quantity'' \<noteq> JUndefined then Some (parseInt (body ''quantity'')) else None),
      ud_invoiceDate =
        (if body ''invoiceDate'' \<noteq> JUndefined then Some (NewDate (body ''invoiceDate'')) else None),
      ud_unitPrice =
        (if body ''unitPrice'' \<noteq> JUndefined
         then Some (ToFixed2 (parseFloat (body ''unitPrice''))) else None),
      ud_customerId =
        (if body ''customerId'' \<noteq> JUndefined
         then Some (if truthy (body ''customerId'')
                    then JNumber (parseInt (body ''customerId'')) else JNull)
         else None),
      ud_country =
        (if body ''country'' \<noteq> JUndefined then Some (body ''country'') else None)\<rparr>"

section \<open>Sample requests and a sample table\<close>

text \<open>
  The table has two rows for the pair \<open>(536365, 85123A)\<close>: the schema declares no key.
\<close>

definition demo_rows :: "row list" where
  "demo_rows =
     [\<lparr>row_invoiceNo = ''536365'', row_stockCode = ''85123A'',
       row_description = Some ''WHITE HANGING HEART T-LIGHT HOLDER'', row_quantity = 6,
       row_invoiceDate = 1291191960000, row_unitPrice = 255, row_customerId = Some 17850,
       row_country = ''United Kingdom''\<rparr>,
      \<lparr>row_invoiceNo = ''536370'', row_stockCode = ''22728'',
       row_description = Some ''ALARM CLOCK BAKELIKE PINK'', row_quantity = 24,
       row_invoiceDate = 1291193100000, row_unitPrice = 375, row_customerId = Some 12583,
       row_country = ''France''\<rparr>,
      \<lparr>row_invoiceNo = ''536365'', row_stockCode = ''85123A'',
       row_description = None, row_quantity = 2,
       row_invoiceDate = 1291278360000, row_unitPrice = 255, row_customerId = None,
       row_country = ''United Kingdom''\<rparr>]"

definition demo_db :: db where
  "demo_db = \<lparr>db_rows = demo_rows, db_online = True, db_takes_order = (\<lambda>name. False)\<rparr>"

definition demo_dateOf :: "jsval \<Rightarrow> int option" where
  "demo_dateOf v =
     (if v = JString ''2010-12-01'' then Some 1291161600000
      else if v = JString ''2010-12-01T08:26:00Z'' then Some 1291191960000
      else None)"


definition demo_body :: body where
  "demo_body =
     (\<lambda>k. JUndefined)
       (''invoiceNo'' := JString ''536365'', ''stockCode'' := JString ''85123A'',
        ''quantity'' := JNumber (Fin 6), ''invoiceDate'' := JString ''2010-12-01T08:26:00Z'',
        ''unitPrice'' := JNumber (Fin (255 / 100)), ''customerId'' := JNumber (Fin 0),
        ''country'' := JString ''United Kingdom'')"

definition demo_update :: body where
  "demo_update = (\<lambda>k. JUndefined)(''quantity'' := JString ''7'', ''customerId'' := JNumber (Fin 0))"

definition no_rows_updated :: "updateData \<Rightarrow> sqlexpr \<Rightarrow> db \<Rightarrow> storage_error + row list \<times> db" where
  "no_rows_updated u w d = Inr ([], d)"

text \<open>
  Two sample engines for the handlers that write. \<open>demo_insert\<close> appends the record as a
  row and returns it. \<open>demo_exec_update\<close> sets the quantity and the customer on the rows
  the predicate keeps and returns those rows. Both store a \<^verbatim>\<open>null\<close> customer as \<open>NULL\<close>.
\<close>

definition demo_insert :: "newRecord \<Rightarrow> db \<Rightarrow> storage_error + row list \<times> db" where
  "demo_insert r d =
     (let x =
        \<lparr>row_invoiceNo = nr_invoiceNo r, row_stockCode = nr_stockCode r,
         row_description = (case nr_description r of JString s \<Rightarrow> Some s | _ \<Rightarrow> None),
         row_quantity = (case nr_quantity r of Fin q \<Rightarrow> \<lfloor>q\<rfloor> | _ \<Rightarrow> 0),
         row_invoiceDate =
           (case nr_invoiceDate r of
              NewDate v \<Rightarrow> (case demo_dateOf v of Some t \<Rightarrow> t | None \<Rightarrow> 0)),
         row_unitPrice = (case nr_unitPrice r of ToFixed2 (Fin p) \<Rightarrow> \<lfloor>p * 100\<rfloor> | _ \<Rightarrow> 0),
         row_customerId = (case nr_customerId r of JNumber (Fin c) \<Rightarrow> Some \<lfloor>c\<rfloor> | _ \<Rightarrow> None),
         row_country = nr_country r\<rparr>
      in Inr ([x], d\<lparr>db_rows := db_rows d @ [x]\<rparr>))"

definition demo_set :: "updateData \<Rightarrow> row \<Rightarrow> row" where
  "demo_set u x =
     x\<lparr>row_quantity := (case ud_quantity u of Some (Fin q) \<Rightarrow> \<lfloor>q\<rfloor> | _ \<Rightarrow> row_quantity x),
       row_customerId :=
         (case ud_customerId u of
            None \<Rightarrow> row_customerId x
          | Some (JNumber (Fin c)) \<Rightarrow> Some \<lfloor>c\<rfloor>
          | Some _ \<Rightarrow> None)\<rparr>"

definition demo_exec_update ::
  "updateData \<Rightarrow> sqlexpr \<Rightarrow> db \<Rightarrow> storage_error + row list \<times> db" where
  "demo_exec_update u w d =
     Inr (map (demo_set u) (filter (holds demo_dateOf w) (db_rows d)),
          d\<lparr>db_rows := map (\<lambda>x. if holds demo_dateOf w x then demo_set u x else x) (db_rows d)\<rparr>)"

section \<open>Facts about the built-ins\<close>

lemma digit_char_facts:
  assumes "d < 10"
  shows "digit_of (digit_char d) = d" and "is_digit 10 (digit_char d)"
    and "\<not> is_space (digit_char d)"
    and "digit_char d \<noteq> CHR ''-''" and "digit_char d \<noteq> CHR ''+''"
    and "digit_char d \<noteq> CHR ''x''" and "digit_char d \<noteq> CHR ''X''"
proof -
  from assms have "d \<in> {0, 1, 2, 3, 4, 5, 6, 7, 8, 9}" by auto
  then show "digit_of (digit_char d) = d" and "is_digit 10 (digit_char d)"
    and "\<not> is_space (digit_char d)"
    and "digit_char d \<noteq> CHR ''-''" and "digit_char d \<noteq> CHR ''+''"
    and "digit_char d \<noteq> CHR ''x''" and "digit_char d \<noteq> CHR ''X''"
    by (auto simp: digit_char_def digit_of_def is_digit_def is_space_def)
qed

lemma digits_value_snoc: "digits_value R (xs @ [c]) = digits_value R xs * R + digit_of c"
  by (simp add: digits_value_def)

lemma show_nat_digits: "c \<in> set (show_nat n) \<Longrightarrow> \<exists>d<10. c = digit_char d"
proof (induction n arbitrary: c rule: show_nat.induct)
  case (1 n)
  show ?case
  proof (cases "n < 10")
    case True
    with "1.prems" show ?thesis by (auto simp: show_nat.simps [of n])
  next
    case False
    with "1.prems" have "c \<in> set (show_nat (n div 10)) \<or> c = digit_char (n mod 10)"
      by (auto simp: show_nat.simps [of n])
    then show ?thesis
    proof
      assume "c \<in> set (show_nat (n div 10))"
      with False "1.IH" show ?thesis by blast
    next
      assume "c = digit_char (n mod 10)"
      moreover have "n mod 10 < 10" by simp
      ultimately show ?thesis by blast
    qed
  qed
qed

lemma show_nat_nonempty: "show_nat n \<noteq> []"
  by (subst show_nat.simps) simp

lemma show_nat_value: "digits_value 10 (show_nat n) = n"
proof (induction n rule: show_nat.induct)
  case (1 n)
  show ?case
  proof (cases "n < 10")
    case True
    then show ?thesis
      by (simp add: show_nat.simps [of n] digits_value_def digit_char_facts(1))
  next
    case False
    have "n mod 10 < 10" by simp
    with False "1.IH" show ?thesis
      by (simp add: show_nat.simps [of n] digits_value_snoc digit_char_facts(1))
  qed
qed

lemma parseInt_str_show_nat: "parseInt_str (show_nat n) = Fin (of_nat n)"
proof -
  let ?s = "show_nat n"
  have all: "\<forall>c \<in> set ?s. \<exists>d<10. c = digit_char d"
    using show_nat_digits by blast
  obtain c cs where s: "?s = c # cs"
    using show_nat_nonempty [of n] by (cases ?s) auto
  have c: "\<exists>d<10. c = digit_char d" using all s by simp
  have nospace: "dropWhile is_space ?s = ?s"
    using c s by (auto simp: digit_char_facts)
  have nosign: "take 1 ?s \<noteq> ''-''" "take 1 ?s \<noteq> ''+''"
    using c s by (auto simp: digit_char_facts)
  have nohex: "take 2 ?s \<noteq> ''0x''" "take 2 ?s \<noteq> ''0X''"
  proof -
    show "take 2 ?s \<noteq> ''0x''"
    proof
      assume "take 2 ?s = ''0x''"
      then have "CHR ''x'' \<in> set (take 2 ?s)" by simp
      then have "CHR ''x'' \<in> set ?s" by (rule in_set_takeD)
      with all obtain d where "d < 10" "CHR ''x'' = digit_char d" by blast
      then show False using digit_char_facts(6) [of d] by simp
    qed
    show "take 2 ?s \<noteq> ''0X''"
    proof
      assume "take 2 ?s = ''0X''"
      then have "CHR ''X'' \<in> set (take 2 ?s)" by simp
      then have "CHR ''X'' \<in> set ?s" by (rule in_set_takeD)
      with all obtain d where "d < 10" "CHR ''X'' = digit_char d" by blast
      then show False using digit_char_facts(7) [of d] by simp
    qed
  qed
  have digits: "takeWhile (is_digit 10) ?s = ?s"
    using all by (auto simp: takeWhile_eq_all_conv digit_char_facts)
  show ?thesis
    unfolding parseInt_str_def Let_def
    by (simp only: nospace nosign nohex digits if_False simp_thms show_nat_nonempty show_nat_value)
      simp
qed

lemma Number_toString_of_nat:
  assumes "n < 10 ^ 21"
  shows "Number_toString (Fin (of_nat n)) = show_nat n"
proof -
  have "frac_digits 20 (0::rat) = []"
    by (simp add: numeral_eq_Suc)
  then have plain: "decimal_text (of_nat n) = show_nat n"
    by (simp add: decimal_text_def Let_def)
  have "(of_nat n :: rat) < of_nat (10 ^ 21)"
    using assms by (simp only: of_nat_less_iff)
  then have big: "\<not> (10 ^ 21 \<le> (of_nat n :: rat))"
    by simp
  have small: "\<not> (0 < (of_nat n :: rat) \<and> (of_nat n :: rat) < 1 / 10 ^ 6)"
  proof
    assume a: "0 < (of_nat n :: rat) \<and> (of_nat n :: rat) < 1 / 10 ^ 6"
    then have "0 < n" by simp
    then have "1 \<le> (of_nat n :: rat)" by simp
    with a show False by simp
  qed
  have pos: "\<bar>of_nat n :: rat\<bar> = of_nat n" "\<not> (of_nat n :: rat) < 0"
    by simp_all
  show ?thesis
    by (simp only: Number_toString_def Let_def jsnum.case pos big small if_False append_Nil plain)
qed

lemma parseInt_of_nat:
  "n < 10 ^ 21 \<Longrightarrow> parseInt (JNumber (Fin (of_nat n))) = Fin (of_nat n)"
  by (simp add: parseInt_def parseInt_str_show_nat Number_toString_of_nat)

section \<open>Facts about the storage model\<close>

lemma length_insert_by: "length (insert_by le x xs) = Suc (length xs)"
  by (induction xs) simp_all

lemma set_insert_by: "set (insert_by le x xs) = insert x (set xs)"
  by (induction xs) auto

lemma length_sort_by: "length (sort_by le xs) = length xs"
  unfolding sort_by_def by (induction xs) (simp_all add: length_insert_by)

lemma set_sort_by: "set (sort_by le xs) = set xs"
  unfolding sort_by_def by (induction xs) (simp_all add: set_insert_by)

lemma length_ordered: "length (ordered ob rows) = length rows"
  by (induction ob rows rule: ordered.induct) (simp_all add: length_sort_by)

lemma set_ordered: "set (ordered ob rows) = set rows"
  by (induction ob rows rule: ordered.induct) (simp_all add: set_sort_by)

lemma length_limited: "length (limited n rows) \<le> length rows"
  by (simp add: limited_def split: option.splits)

lemma length_skipped: "length (skipped n rows) \<le> length rows"
  by (simp add: skipped_def split: option.splits)

lemma set_limited: "set (limited n rows) \<subseteq> set rows"
  by (auto simp: limited_def split: option.splits dest: in_set_takeD)

lemma set_skipped: "set (skipped n rows) \<subseteq> set rows"
  by (auto simp: skipped_def split: option.splits dest: in_set_dropD)

lemma page_within_matching:
  "length (limited l (skipped off (ordered ob rows))) \<le> length rows"
  "set (limited l (skipped off (ordered ob rows))) \<subseteq> set rows"
proof -
  have "length (limited l (skipped off (ordered ob rows))) \<le> length (skipped off (ordered ob rows))"
    by (rule length_limited)
  also have "\<dots> \<le> length (ordered ob rows)" by (rule length_skipped)
  finally show "length (limited l (skipped off (ordered ob rows))) \<le> length rows"
    by (simp add: length_ordered)
  show "set (limited l (skipped off (ordered ob rows))) \<subseteq> set rows"
    using set_limited [of l "skipped off (ordered ob rows)"] set_skipped [of off "ordered ob rows"]
    by (auto simp: set_ordered)
qed

lemma holds_And_append:
  "holds dateOf (And (xs @ ys)) r = (holds dateOf (And xs) r \<and> holds dateOf (And ys) r)"
  by auto





lemma holds_key:
  "holds dateOf (key_where i s) r = (row_invoiceNo r = i \<and> row_stockCode r = s)"
  by (auto simp: key_where_def)

lemma valid_key: "where_valid dateOf (Some (key_where i s))"
  by (simp add: where_valid_def key_where_def)

lemma matching_key:
  "matching dateOf (Some (key_where i s)) rows =
     filter (\<lambda>r. row_invoiceNo r = i \<and> row_stockCode r = s) rows"
  by (simp add: matching_def holds_key cong: filter_cong)

lemma unmatched_key:
  "unmatched dateOf (Some (key_where i s)) rows =
     filter (\<lambda>r. \<not> (row_invoiceNo r = i \<and> row_stockCode r = s)) rows"
  by (simp add: unmatched_def holds_key cong: filter_cong)

lemma run_delete_key:
  "db_online d \<Longrightarrow>
   run_delete dateOf d (Some (key_where i s)) =
     Inr (filter (\<lambda>r. row_invoiceNo r = i \<and> row_stockCode r = s) (db_rows d),
          d\<lparr>db_rows := filter (\<lambda>r. \<not> (row_invoiceNo r = i \<and> row_stockCode r = s)) (db_rows d)\<rparr>)"
  by (simp add: run_delete_def valid_key matching_key unmatched_key)

lemma filter_none: "filter P xs = [] \<Longrightarrow> filter (\<lambda>x. \<not> P x) xs = xs"
  by (induction xs) (auto split: if_splits)

lemma run_select_get:
  "db_online d \<Longrightarrow>
   run_select dateOf d (get_stmt i s) =
     Inr (take 1 (filter (\<lambda>r. row_invoiceNo r = i \<and> row_stockCode r = s) (db_rows d)))"
  by (simp add: run_select_def get_stmt_def valid_key matching_key skipped_def limited_def
        row_count_def)

lemma parse_zero:
  "parseFloat (JNumber (Fin 0)) = Fin 0" "parseInt (JNumber (Fin 0)) = Fin 0"
  by code_simp+

lemma conditional_update:
  "(if c then u\<lparr>ud_description := a\<rparr> else u) =
     u\<lparr>ud_description := (if c then a else ud_description u)\<rparr>"
  "(if c then u\<lparr>ud_quantity := b\<rparr> else u) =
     u\<lparr>ud_quantity := (if c then b else ud_quantity u)\<rparr>"
  "(if c then u\<lparr>ud_invoiceDate := e\<rparr> else u) =
     u\<lparr>ud_invoiceDate := (if c then e else ud_invoiceDate u)\<rparr>"
  "(if c then u\<lparr>ud_unitPrice := f\<rparr> else u) =
     u\<lparr>ud_unitPrice := (if c then f else ud_unitPrice u)\<rparr>"
  "(if c then u\<lparr>ud_customerId := g\<rparr> else u) =
     u\<lparr>ud_customerId := (if c then g else ud_customerId u)\<rparr>"
  "(if c then u\<lparr>ud_country := h\<rparr> else u) =
     u\<lparr>ud_country := (if c then h else ud_country u)\<rparr>"
  by simp_all

lemma update_plan_eq:
  "update_plan body =
     (if body ''quantity'' \<noteq> JUndefined \<and> isNaN (body ''quantity'')
      then Inl (failure 400 ''Quantity must be a number'')
      else if body ''unitPrice'' \<noteq> JUndefined \<and> isNaN (JNumber (parseFloat (body ''unitPrice'')))
      then Inl (failure 400 ''Unit price must be a number'')
      else if Object_keys (planned_update body) = []
      then Inl (failure 400 ''No fields provided for update'')
      else Inr (planned_update body))"
  by (simp add: update_plan_def Let_def no_update_def planned_update_def conditional_update
        split del: if_split cong del: if_weak_cong)

lemma Object_keys_planned:
  "Object_keys (planned_update body) = filter (\<lambda>k. body k \<noteq> JUndefined) updatable"
  by (simp add: Object_keys_def planned_update_def updatable_def)

lemma update_plan_Inr:
  "update_plan body = Inr u \<Longrightarrow> u = planned_update body \<and> Object_keys u \<noteq> []"
  by (simp add: update_plan_eq split: if_splits)

lemma update_plan_empty:
  assumes "\<forall>k \<in> set updatable. body k = JUndefined"
  shows "update_plan body = Inl (failure 400 ''No fields provided for update'')"
proof -
  have "filter (\<lambda>k. body k \<noteq> JUndefined) updatable = []"
    using assms by (simp add: filter_empty_conv)
  moreover have "body ''quantity'' = JUndefined" "body ''unitPrice'' = JUndefined"
    using assms by (simp_all add: updatable_def)
  ultimately show ?thesis
    by (simp add: update_plan_eq Object_keys_planned)
qed

section \<open>Sorting, validation and pagination on the inputs they handle\<close>

lemma sortField_of_name:
  "q ''sortBy'' = None \<Longrightarrow> sortField lib q = Column InvoiceDate"
  "q ''sortBy'' = Some ''invoiceDate'' \<Longrightarrow> sortField lib q = Column InvoiceDate"
  "q ''sortBy'' = Some ''unitPrice'' \<Longrightarrow> sortField lib q = Column UnitPrice"
  "q ''sortBy'' = Some ''quantity'' \<Longrightarrow> sortField lib q = Column Quantity"
  by (simp_all add: sortField_def or_default_def param_def salesData_def declared_def)

lemma sortField_fallback:
  "q ''sortBy'' = Some s \<Longrightarrow> salesData lib s = None \<Longrightarrow> sortField lib q = Column InvoiceDate"
  by (simp add: sortField_def or_default_def param_def)

lemma sortField_inherited:
  assumes "q ''sortBy'' = Some s" and "s \<in> set Object_prototype"
  shows "sortField lib q = Inherited s"
proof -
  have "list_all (\<lambda>n. map_of declared n = None) Object_prototype"
    by code_simp
  with assms(2) have "map_of declared s = None"
    by (simp add: list_all_iff)
  with assms(2) have "salesData lib s = Some (Inherited s)"
    by (simp add: salesData_def)
  with assms(1) show ?thesis
    by (simp add: sortField_def or_default_def param_def)
qed

lemma list_fails_on_refused_order:
  assumes "sortField lib q = Inherited s" and "\<not> db_takes_order d s"
  shows "res_status (list_handler lib dateOf d q) = 500"
proof -
  have "\<not> order_taken d (sel_orderBy (list_records_stmt lib q))"
    using assms by (simp add: list_records_stmt_def orderBy_def Let_def)
  then have "\<exists>e. run_select dateOf d (list_records_stmt lib q) = Inl e"
    by (simp add: run_select_def)
  then show ?thesis
    by (auto simp: list_handler_def server_error_def failure_def)
qed

lemma create_plan_inserts_iff:
  "(\<exists>r. create_plan body = Inr r) =
     (truthy (body ''invoiceNo'') \<and> truthy (body ''stockCode'') \<and> truthy (body ''quantity'') \<and>
      truthy (body ''invoiceDate'') \<and> truthy (body ''unitPrice'') \<and> truthy (body ''country'') \<and>
      \<not> isNaN (body ''quantity'') \<and> \<not> isNaN (JNumber (parseFloat (body ''unitPrice''))))"
  by (auto simp: create_plan_def Let_def)

lemma pagination_defaults:
  "q ''page'' = None \<Longrightarrow> list_pageNum q = Fin 1"
  "q ''limit'' = None \<Longrightarrow> list_limitNum q = Fin 50"
  "q ''limit'' = None \<Longrightarrow> top_limitNum q = Fin 10"
proof -
  have "parseInt (JNumber (Fin 1)) = Fin 1" "parseInt (JNumber (Fin 50)) = Fin 50"
    "parseInt (JNumber (Fin 10)) = Fin 10"
    by code_simp+
  then show "q ''page'' = None \<Longrightarrow> list_pageNum q = Fin 1"
    "q ''limit'' = None \<Longrightarrow> list_limitNum q = Fin 50"
    "q ''limit'' = None \<Longrightarrow> top_limitNum q = Fin 10"
    by (simp_all add: list_pageNum_def list_limitNum_def top_limitNum_def or_default_def param_def)
qed

lemma pagination_of_numbers:
  assumes "q ''page'' = Some a" and "parseInt (JString a) = Fin p"
    and "q ''limit'' = Some b" and "parseInt (JString b) = Fin l"
  shows "list_pageNum q = Fin (max 1 p)"
    and "list_limitNum q = Fin (min 1000 (max 1 l))"
    and "top_limitNum q = Fin (min 100 (max 1 l))"
    and "list_offset q = Fin ((max 1 p - 1) * min 1000 (max 1 l))"
  using assms
  by (simp_all add: list_pageNum_def list_limitNum_def top_limitNum_def list_offset_def
        or_default_def param_def)

lemma list_reply_agrees:
  assumes ok: "res_status (list_handler lib dateOf d q) = 200"
    and size: "length (db_rows d) < 10 ^ 21"
  shows "\<exists>records p.
           list_handler lib dateOf d q =
             \<lparr>res_status = 200, res_success = True, res_message = None,
              res_data = Some (Records records), res_pagination = Some p, res_error = None\<rparr> \<and>
           sel_where (list_records_stmt lib q) = list_count_where q \<and>
           pg_limit p = list_limitNum q \<and>
           pg_total p = Fin (of_nat (length (matching dateOf (list_count_where q) (db_rows d)))) \<and>
           length records \<le> length (matching dateOf (list_count_where q) (db_rows d)) \<and>
           set records \<subseteq> set (matching dateOf (list_count_where q) (db_rows d)) \<and>
           pg_totalPages p =
             (case list_limitNum q of
                Fin l \<Rightarrow> Fin (of_int \<lceil>of_nat (length (matching dateOf (list_count_where q)
                           (db_rows d))) / l\<rceil>)
              | _ \<Rightarrow> NaN)"
proof -
  let ?st = "list_records_stmt lib q"
  let ?w = "list_count_where q"
  let ?m = "matching dateOf ?w (db_rows d)"
  let ?recs = "limited (sel_limit ?st) (skipped (sel_offset ?st) (ordered (sel_orderBy ?st) ?m))"
  have w: "sel_where ?st = ?w"
    by (simp add: list_records_stmt_def list_count_where_def)
  have failed: "res_status (server_error m e) \<noteq> 200" for m e
    by (simp add: server_error_def failure_def)
  from ok obtain recs where sel: "run_select dateOf d ?st = Inr recs"
    by (cases "run_select dateOf d ?st") (simp_all add: list_handler_def failed)
  from ok sel obtain n where cnt: "run_count dateOf d ?w = Inr n"
    by (cases "run_count dateOf d ?w") (simp_all add: list_handler_def failed)
  from sel have recs: "recs = ?recs"
    by (simp add: run_select_def w split: if_splits)
  from cnt have n: "n = length ?m"
    by (simp add: run_count_def split: if_splits)
  have "length ?m \<le> length (db_rows d)"
    by (simp add: matching_def split: option.splits)
  with size have small: "length ?m < 10 ^ 21" by simp
  have lim: "1 \<le> l" if "list_limitNum q = Fin l" for l
    using that unfolding list_limitNum_def Let_def
    by (cases "parseInt (or_default (JNumber (Fin 50)) (param (q ''limit'')))") auto
  have inf: "list_limitNum q \<noteq> PosInf" "list_limitNum q \<noteq> NegInf"
    unfolding list_limitNum_def Let_def
    by (cases "parseInt (or_default (JNumber (Fin 50)) (param (q ''limit'')))"; simp)+
  have pages: "Math_ceil (js_div (Fin (of_nat (length ?m))) (list_limitNum q)) =
      (case list_limitNum q of
         Fin l \<Rightarrow> Fin (of_int \<lceil>of_nat (length ?m) / l\<rceil>) | _ \<Rightarrow> NaN)"
  proof (cases "list_limitNum q")
    case (Fin l)
    with lim [OF Fin] show ?thesis by simp
  qed (use inf in simp_all)
  show ?thesis
    using page_within_matching [of "sel_limit ?st" "sel_offset ?st" "sel_orderBy ?st" ?m]
    by (simp add: list_handler_def sel cnt recs n w parseInt_of_nat [OF small] pages Let_def)
qed

section \<open>The claims\<close>

text \<open>
  C1. The specification says that the ordering field of the list is one of
  \<open>invoiceDate\<close>, \<open>unitPrice\<close>, \<open>quantity\<close>, and that any other name falls back to
  \<open>invoiceDate\<close>. The handler looks the name up on the table object, so the name of any
  column is taken: with \<^verbatim>\<open>sortBy=country\<close> the statement orders by \<open>country\<close>, whatever
  the table object inherits.
\<close>

theorem sortBy_country_orders_by_country:
  "sortField lib [''sortBy'' \<mapsto> ''country''] = Column Country \<and>
   sel_orderBy (list_records_stmt lib [''sortBy'' \<mapsto> ''country'']) =
     Some (Desc (Column Country))"
  by (simp add: list_records_stmt_def orderBy_def sortField_def salesData_def declared_def
        or_default_def param_def)

text \<open>
  C2. The specification says that a create request whose six required fields are present
  and not empty, and whose quantity and unit price are numbers, reaches the insert. The
  handler tests the fields for truthiness: with \<^verbatim>\<open>quantity: 0\<close> it replies 400, "Missing
  required fields", whatever the storage engine would do, and nothing is issued.
\<close>

theorem create_rejects_quantity_zero:
  "create_handler exec_insert d (demo_body(''quantity'' := JNumber (Fin 0))) =
     \<lparr>reply = failure 400
        ''Missing required fields: invoiceNo, stockCode, quantity, invoiceDate, unitPrice, country'',
      store = d, issued = []\<rparr>"
  by (simp add: create_handler_def create_plan_def demo_body_def)

text \<open>
  C3. The specification says that the page number is at least 1 and that the page size
  lies in \<open>[1, 1000]\<close> (list) or \<open>[1, 100]\<close> (top products) for every \<^verbatim>\<open>page\<close> and
  \<^verbatim>\<open>limit\<close>. For a value that \<^verbatim>\<open>parseInt\<close> does not read, such as \<^verbatim>\<open>abc\<close>, the page number,
  the page size and the offset are \<open>NaN\<close>.
\<close>

theorem page_abc_is_not_clamped:
  "list_pageNum [''page'' \<mapsto> ''abc''] = NaN \<and>
   list_offset [''page'' \<mapsto> ''abc''] = NaN \<and>
   list_limitNum [''limit'' \<mapsto> ''abc''] = NaN \<and>
   top_limitNum [''limit'' \<mapsto> ''abc''] = NaN"
  by code_simp



text \<open>
  C5. The specification says that for every state of the table and every valid filter
  the page count that the list reports is the total divided by the page size, rounded
  up. With \<^verbatim>\<open>limit=abc\<close> the page size is \<open>NaN\<close>, as in C3, and on a table of three rows
  the list replies 200 with a total of 3 and with a page size and a page count that are
  \<open>NaN\<close>.
\<close>

theorem limit_abc_gives_no_page_count:
  "res_status (list_handler lib demo_dateOf demo_db [''limit'' \<mapsto> ''abc'']) = 200 \<and>
   res_pagination (list_handler lib demo_dateOf demo_db [''limit'' \<mapsto> ''abc'']) =
     Some \<lparr>pg_page = Fin 1, pg_limit = NaN, pg_total = Fin 3, pg_totalPages = NaN\<rparr>"
  by code_simp

text \<open>
  C6. The update sets exactly the updatable fields that the body holds. When the body
  holds none of them the handler replies 400 without issuing a statement, and the
  database is the one it was given. When the update statement returns no row the reply
  is 404.
\<close>

theorem update_is_partial:
  "(\<forall>u. update_plan body = Inr u \<longrightarrow>
      Object_keys u = filter (\<lambda>k. body k \<noteq> JUndefined) updatable \<and> Object_keys u \<noteq> []) \<and>
   ((\<forall>k \<in> set updatable. body k = JUndefined) \<longrightarrow>
      update_handler exec_update d invoiceNo stockCode body =
        \<lparr>reply = failure 400 ''No fields provided for update'', store = d, issued = []\<rparr>) \<and>
   (\<forall>u d'. update_plan body = Inr u \<and>
        exec_update u (key_where invoiceNo stockCode) d = Inr ([], d') \<longrightarrow>
      reply (update_handler exec_update d invoiceNo stockCode body) =
        failure 404 ''Sales record not found'')"
proof (intro conjI allI impI)
  fix u assume u: "update_plan body = Inr u"
  then show "Object_keys u = filter (\<lambda>k. body k \<noteq> JUndefined) updatable"
    using update_plan_Inr [OF u] by (simp add: Object_keys_planned)
  from u show "Object_keys u \<noteq> []"
    using update_plan_Inr [OF u] by blast
next
  assume "\<forall>k \<in> set updatable. body k = JUndefined"
  then show "update_handler exec_update d invoiceNo stockCode body =
      \<lparr>reply = failure 400 ''No fields provided for update'', store = d, issued = []\<rparr>"
    by (simp add: update_handler_def update_plan_empty)
next
  fix u d'
  assume "update_plan body = Inr u \<and> exec_update u (key_where invoiceNo stockCode) d = Inr ([], d')"
  then show "reply (update_handler exec_update d invoiceNo stockCode body) =
      failure 404 ''Sales record not found''"
    by (simp add: update_handler_def)
qed

theorem update_is_partial_witness:
  "update_handler no_rows_updated demo_db ''536365'' ''85123A'' (\<lambda>k. JUndefined) =
     \<lparr>reply = failure 400 ''No fields provided for update'', store = demo_db, issued = []\<rparr> \<and>
   (\<exists>u. update_plan demo_update = Inr u \<and> Object_keys u = [''quantity'', ''customerId'']) \<and>
   reply (update_handler no_rows_updated demo_db ''536365'' ''85123A'' demo_update) =
     failure 404 ''Sales record not found''"
proof -
  have absent: "\<forall>k \<in> set updatable. (\<lambda>k. JUndefined) k = JUndefined" by simp
  obtain u where u: "update_plan demo_update = Inr u"
    by (simp add: update_plan_eq Object_keys_planned demo_update_def updatable_def isNaN_def
          StringToNumber_def scan_decimal_def scan_unsigned_def scan_exponent_def is_space_def
          is_digit_def digit_of_def Let_def)
  have keys: "filter (\<lambda>k. demo_update k \<noteq> JUndefined) updatable = [''quantity'', ''customerId'']"
    by (simp add: demo_update_def updatable_def)
  have exec: "no_rows_updated u (key_where ''536365'' ''85123A'') demo_db = Inr ([], demo_db)"
    by (simp add: no_rows_updated_def)
  from update_is_partial [of "\<lambda>k. JUndefined" no_rows_updated demo_db "''536365''" "''85123A''"] absent
  have "update_handler no_rows_updated demo_db ''536365'' ''85123A'' (\<lambda>k. JUndefined) =
      \<lparr>reply = failure 400 ''No fields provided for update'', store = demo_db, issued = []\<rparr>"
    by blast
  moreover from update_is_partial [of demo_update no_rows_updated demo_db "''536365''" "''85123A''"]
    u exec keys
  have "Object_keys u = [''quantity'', ''customerId'']"
    and "reply (update_handler no_rows_updated demo_db ''536365'' ''85123A'' demo_update) =
      failure 404 ''Sales record not found''"
    by auto
  ultimately show ?thesis using u by simp
qed

text \<open>
  C7. On a reachable database, deleting by \<open>(invoiceNo, stockCode)\<close> replies 404 and
  changes nothing when no row has that pair. When some row has it, the reply is 200 with
  one of those rows, the rows left are exactly those with another pair, and deleting the
  same pair again replies 404.
\<close>

theorem delete_by_key:
  assumes "db_online d"
  shows "((\<forall>r \<in> set (db_rows d). \<not> (row_invoiceNo r = i \<and> row_stockCode r = s)) \<longrightarrow>
            delete_handler dateOf d i s = (failure 404 ''Sales record not found'', d)) \<and>
         ((\<exists>r \<in> set (db_rows d). row_invoiceNo r = i \<and> row_stockCode r = s) \<longrightarrow>
            (\<exists>r \<in> set (db_rows d). row_invoiceNo r = i \<and> row_stockCode r = s \<and>
               fst (delete_handler dateOf d i s) =
                 \<lparr>res_status = 200, res_success = True,
                  res_message = Some ''Sales record deleted successfully'',
                  res_data = Some (Record r), res_pagination = None, res_error = None\<rparr>) \<and>
            db_rows (snd (delete_handler dateOf d i s)) =
              filter (\<lambda>r. \<not> (row_invoiceNo r = i \<and> row_stockCode r = s)) (db_rows d) \<and>
            fst (delete_handler dateOf (snd (delete_handler dateOf d i s)) i s) =
              failure 404 ''Sales record not found'')"
proof (intro conjI impI)
  let ?key = "\<lambda>r. row_invoiceNo r = i \<and> row_stockCode r = s"
  let ?d' = "d\<lparr>db_rows := filter (\<lambda>r. \<not> ?key r) (db_rows d)\<rparr>"
  {
    assume none: "\<forall>r \<in> set (db_rows d). \<not> ?key r"
    then have m: "filter ?key (db_rows d) = []" by (simp add: filter_empty_conv)
    then have "filter (\<lambda>r. \<not> ?key r) (db_rows d) = db_rows d" by (rule filter_none)
    then have "?d' = d" by simp
    with m show "delete_handler dateOf d i s = (failure 404 ''Sales record not found'', d)"
      using assms by (simp add: delete_handler_def run_delete_key)
  }
  assume some: "\<exists>r \<in> set (db_rows d). ?key r"
  then obtain r rs where m: "filter ?key (db_rows d) = r # rs"
    by (cases "filter ?key (db_rows d)") (auto simp: filter_empty_conv)
  then have "r \<in> set (filter ?key (db_rows d))" by simp
  then have r: "r \<in> set (db_rows d)" "?key r" by auto
  have first: "delete_handler dateOf d i s =
      (\<lparr>res_status = 200, res_success = True,
        res_message = Some ''Sales record deleted successfully'',
        res_data = Some (Record r), res_pagination = None, res_error = None\<rparr>, ?d')"
    using assms m by (simp add: delete_handler_def run_delete_key)
  from first r show "\<exists>r \<in> set (db_rows d). row_invoiceNo r = i \<and> row_stockCode r = s \<and>
      fst (delete_handler dateOf d i s) =
        \<lparr>res_status = 200, res_success = True,
         res_message = Some ''Sales record deleted successfully'',
         res_data = Some (Record r), res_pagination = None, res_error = None\<rparr>"
    by auto
  from first show "db_rows (snd (delete_handler dateOf d i s)) =
      filter (\<lambda>r. \<not> ?key r) (db_rows d)"
    by simp
  have "db_online ?d'" using assms by simp
  moreover have "filter ?key (db_rows ?d') = []" by (simp add: filter_empty_conv)
  ultimately have "delete_handler dateOf ?d' i s = (failure 404 ''Sales record not found'', ?d')"
    by (simp add: delete_handler_def run_delete_key)
  with first show "fst (delete_handler dateOf (snd (delete_handler dateOf d i s)) i s) =
      failure 404 ''Sales record not found''"
    by simp
qed

theorem delete_by_key_witness:
  "db_online demo_db \<and>
   (\<exists>r \<in> set (db_rows demo_db). row_invoiceNo r = ''536365'' \<and> row_stockCode r = ''85123A'') \<and>
   (\<exists>r \<in> set (db_rows demo_db). row_invoiceNo r = ''536365'' \<and> row_stockCode r = ''85123A'' \<and>
      res_data (fst (delete_handler demo_dateOf demo_db ''536365'' ''85123A'')) = Some (Record r)) \<and>
   res_status (fst (delete_handler demo_dateOf demo_db ''536365'' ''85123A'')) = 200 \<and>
   res_status (fst (delete_handler demo_dateOf
     (snd (delete_handler demo_dateOf demo_db ''536365'' ''85123A'')) ''536365'' ''85123A'')) = 404 \<and>
   delete_handler demo_dateOf demo_db ''536365'' ''99999'' =
     (failure 404 ''Sales record not found'', demo_db)"
proof -
  have online: "db_online demo_db" by (simp add: demo_db_def)
  have some: "\<exists>r \<in> set (db_rows demo_db). row_invoiceNo r = ''536365'' \<and> row_stockCode r = ''85123A''"
    by (simp add: demo_db_def demo_rows_def)
  have none: "\<forall>r \<in> set (db_rows demo_db). \<not> (row_invoiceNo r = ''536365'' \<and> row_stockCode r = ''99999'')"
    by (simp add: demo_db_def demo_rows_def)
  note hit = delete_by_key [OF online, of "''536365''" "''85123A''" demo_dateOf]
  note miss = delete_by_key [OF online, of "''536365''" "''99999''" demo_dateOf]
  from hit some obtain r where
    r: "r \<in> set (db_rows demo_db)" "row_invoiceNo r = ''536365''" "row_stockCode r = ''85123A''"
    and first: "fst (delete_handler demo_dateOf demo_db ''536365'' ''85123A'') =
        \<lparr>res_status = 200, res_success = True,
         res_message = Some ''Sales record deleted successfully'',
         res_data = Some (Record r), res_pagination = None, res_error = None\<rparr>"
    by blast
  from hit some have second:
    "fst (delete_handler demo_dateOf (snd (delete_handler demo_dateOf demo_db ''536365'' ''85123A''))
       ''536365'' ''85123A'') = failure 404 ''Sales record not found''"
    by blast
  from miss none have third:
    "delete_handler demo_dateOf demo_db ''536365'' ''99999'' =
       (failure 404 ''Sales record not found'', demo_db)"
    by blast
  have "\<exists>r \<in> set (db_rows demo_db). row_invoiceNo r = ''536365'' \<and> row_stockCode r = ''85123A'' \<and>
      res_data (fst (delete_handler demo_dateOf demo_db ''536365'' ''85123A'')) = Some (Record r)"
    using r first by auto
  then show ?thesis
    using online some first second third by (simp add: failure_def)
qed

text \<open>
  C8. When the engine accepts the filter of the summary and no row matches it, the
  summary replies 200 with \<open>totalSales\<close>, \<open>totalQuantity\<close>, \<open>totalOrders\<close> and
  \<open>averageOrderValue\<close> all 0.
\<close>

theorem summary_of_no_rows:
  assumes "db_online d"
    and "where_valid dateOf (where_of (summary_conditions q))"
    and "matching dateOf (where_of (summary_conditions q)) (db_rows d) = []"
  shows "summary_handler dateOf avg_text d q =
           \<lparr>res_status = 200, res_success = True, res_message = None,
            res_data = Some (Summary
              \<lparr>totalSales = Fin 0, totalQuantity = Fin 0, totalOrders = Fin 0,
               averageOrderValue = Fin 0\<rparr>),
            res_pagination = None, res_error = None\<rparr>"
  using assms
  by (simp add: summary_handler_def run_summary_def aggregate_def js_or_def parse_zero)

theorem summary_of_no_rows_witness:
  "db_online demo_db \<and>
   where_valid demo_dateOf (where_of (summary_conditions [''country'' \<mapsto> ''Spain''])) \<and>
   matching demo_dateOf (where_of (summary_conditions [''country'' \<mapsto> ''Spain''])) (db_rows demo_db) = [] \<and>
   res_data (summary_handler demo_dateOf (\<lambda>x. []) demo_db [''country'' \<mapsto> ''Spain'']) =
     Some (Summary \<lparr>totalSales = Fin 0, totalQuantity = Fin 0, totalOrders = Fin 0,
                    averageOrderValue = Fin 0\<rparr>)"
proof -
  have online: "db_online demo_db" by (simp add: demo_db_def)
  have valid: "where_valid demo_dateOf (where_of (summary_conditions [''country'' \<mapsto> ''Spain'']))"
    by code_simp
  have empty: "matching demo_dateOf (where_of (summary_conditions [''country'' \<mapsto> ''Spain'']))
      (db_rows demo_db) = []"
    by code_simp
  from summary_of_no_rows [OF online valid empty, of "\<lambda>x. []"] online valid empty
  show ?thesis by simp
qed

text \<open>
  C9. The select of get-one carries \<open>LIMIT 1\<close> and returns at most one row, also when
  several rows have the pair. The reply is 404 when no row has the pair, and otherwise
  200 with a single row that has it.
\<close>

theorem get_one_single_record:
  assumes "db_online d"
  shows "sel_limit (get_stmt i s) = Some (Fin 1) \<and>
         (\<exists>rs. run_select dateOf d (get_stmt i s) = Inr rs \<and> length rs \<le> 1) \<and>
         ((\<forall>r \<in> set (db_rows d). \<not> (row_invoiceNo r = i \<and> row_stockCode r = s)) \<longrightarrow>
            get_handler dateOf d i s = failure 404 ''Sales record not found'') \<and>
         ((\<exists>r \<in> set (db_rows d). row_invoiceNo r = i \<and> row_stockCode r = s) \<longrightarrow>
            (\<exists>r \<in> set (db_rows d). row_invoiceNo r = i \<and> row_stockCode r = s \<and>
               get_handler dateOf d i s =
                 \<lparr>res_status = 200, res_success = True, res_message = None,
                  res_data = Some (Record r), res_pagination = None, res_error = None\<rparr>))"
proof (intro conjI impI)
  let ?key = "\<lambda>r. row_invoiceNo r = i \<and> row_stockCode r = s"
  show "sel_limit (get_stmt i s) = Some (Fin 1)" by (simp add: get_stmt_def)
  show "\<exists>rs. run_select dateOf d (get_stmt i s) = Inr rs \<and> length rs \<le> 1"
    using assms by (simp add: run_select_get)
  {
    assume "\<forall>r \<in> set (db_rows d). \<not> ?key r"
    then have "filter ?key (db_rows d) = []" by (simp add: filter_empty_conv)
    then show "get_handler dateOf d i s = failure 404 ''Sales record not found''"
      using assms by (simp add: get_handler_def run_select_get)
  }
  assume "\<exists>r \<in> set (db_rows d). ?key r"
  then obtain r rs where m: "filter ?key (db_rows d) = r # rs"
    by (cases "filter ?key (db_rows d)") (auto simp: filter_empty_conv)
  then have "r \<in> set (filter ?key (db_rows d))" by simp
  then have r: "r \<in> set (db_rows d)" "?key r" by auto
  have "get_handler dateOf d i s =
      \<lparr>res_status = 200, res_success = True, res_message = None,
       res_data = Some (Record r), res_pagination = None, res_error = None\<rparr>"
    using assms m by (simp add: get_handler_def run_select_get)
  with r show "\<exists>r \<in> set (db_rows d). row_invoiceNo r = i \<and> row_stockCode r = s \<and>
      get_handler dateOf d i s =
        \<lparr>res_status = 200, res_success = True, res_message = None,
         res_data = Some (Record r), res_pagination = None, res_error = None\<rparr>"
    by auto
qed

theorem get_one_single_record_witness:
  "db_online demo_db \<and>
   length (filter (\<lambda>r. row_invoiceNo r = ''536365'' \<and> row_stockCode r = ''85123A'')
     (db_rows demo_db)) = 2 \<and>
   (\<exists>r \<in> set (db_rows demo_db). row_invoiceNo r = ''536365'' \<and> row_stockCode r = ''85123A'' \<and>
      get_handler demo_dateOf demo_db ''536365'' ''85123A'' =
        \<lparr>res_status = 200, res_success = True, res_message = None,
         res_data = Some (Record r), res_pagination = None, res_error = None\<rparr>) \<and>
   get_handler demo_dateOf demo_db ''536365'' ''99999'' = failure 404 ''Sales record not found''"
proof -
  have online: "db_online demo_db" by (simp add: demo_db_def)
  have two: "length (filter (\<lambda>r. row_invoiceNo r = ''536365'' \<and> row_stockCode r = ''85123A'')
      (db_rows demo_db)) = 2"
    by (simp add: demo_db_def demo_rows_def)
  have some: "\<exists>r \<in> set (db_rows demo_db). row_invoiceNo r = ''536365'' \<and> row_stockCode r = ''85123A''"
    by (simp add: demo_db_def demo_rows_def)
  have none: "\<forall>r \<in> set (db_rows demo_db). \<not> (row_invoiceNo r = ''536365'' \<and> row_stockCode r = ''99999'')"
    by (simp add: demo_db_def demo_rows_def)
  from get_one_single_record [OF online, of "''536365''" "''85123A''" demo_dateOf] some
  have hit: "\<exists>r \<in> set (db_rows demo_db). row_invoiceNo r = ''536365'' \<and> row_stockCode r = ''85123A'' \<and>
      get_handler demo_dateOf demo_db ''536365'' ''85123A'' =
        \<lparr>res_status = 200, res_success = True, res_message = None,
         res_data = Some (Record r), res_pagination = None, res_error = None\<rparr>"
    by blast
  from get_one_single_record [OF online, of "''536365''" "''99999''" demo_dateOf] none
  have miss: "get_handler demo_dateOf demo_db ''536365'' ''99999'' = failure 404 ''Sales record not found''"
    by blast
  from online two hit miss show ?thesis by blast
qed

text \<open>
  C10. The number 0, the empty string and \<^verbatim>\<open>null\<close> are falsy. Whenever create reaches the
  insert with a falsy \<^verbatim>\<open>customerId\<close>, the record it hands to the engine has \<open>customerId\<close>
  null, that insert is the one statement issued, the database the handler leaves is the
  one the engine returns for that record, and the reply carries the row the engine
  returns. Whenever update reaches the statement with a \<^verbatim>\<open>customerId\<close> that is given and
  falsy, the same holds of the update, which sets \<open>customerId\<close> to null. This holds for
  every engine.
\<close>

theorem falsy_customerId_stored_null:
  "\<not> truthy (JNumber (Fin 0)) \<and> \<not> truthy (JString []) \<and> \<not> truthy JNull \<and>
   (\<forall>r. \<not> truthy (body ''customerId'') \<and> create_plan body = Inr r \<longrightarrow>
      nr_customerId r = JNull \<and>
      issued (create_handler exec_insert d body) = [Insert r] \<and>
      (\<forall>result d'. exec_insert r d = Inr (result, d') \<longrightarrow>
         store (create_handler exec_insert d body) = d' \<and>
         reply (create_handler exec_insert d body) =
           \<lparr>res_status = 201, res_success = True,
            res_message = Some ''Sales record created successfully'',
            res_data = (case result of [] \<Rightarrow> None | x # _ \<Rightarrow> Some (Record x)),
            res_pagination = None, res_error = None\<rparr>)) \<and>
   (\<forall>u. \<not> truthy (body ''customerId'') \<and> body ''customerId'' \<noteq> JUndefined \<and>
        update_plan body = Inr u \<longrightarrow>
      ud_customerId u = Some JNull \<and>
      issued (update_handler exec_update d invoiceNo stockCode body) =
        [Update u (key_where invoiceNo stockCode)] \<and>
      (\<forall>result d'. exec_update u (key_where invoiceNo stockCode) d = Inr (result, d') \<longrightarrow>
         store (update_handler exec_update d invoiceNo stockCode body) = d' \<and>
         reply (update_handler exec_update d invoiceNo stockCode body) =
           (case result of
              [] \<Rightarrow> failure 404 ''Sales record not found''
            | x # _ \<Rightarrow>
                \<lparr>res_status = 200, res_success = True,
                 res_message = Some ''Sales record updated successfully'',
                 res_data = Some (Record x), res_pagination = None, res_error = None\<rparr>)))"
proof (intro conjI allI impI)
  show "\<not> truthy (JNumber (Fin 0))" "\<not> truthy (JString [])" "\<not> truthy JNull" by simp_all
next
  fix r assume a: "\<not> truthy (body ''customerId'') \<and> create_plan body = Inr r"
  then show "nr_customerId r = JNull"
    unfolding create_plan_def Let_def by (auto split: if_splits)
  from a show "issued (create_handler exec_insert d body) = [Insert r]"
    by (simp add: create_handler_def split: sum.splits prod.splits)
  fix result d' assume "exec_insert r d = Inr (result, d')"
  with a show "store (create_handler exec_insert d body) = d'"
    and "reply (create_handler exec_insert d body) =
           \<lparr>res_status = 201, res_success = True,
            res_message = Some ''Sales record created successfully'',
            res_data = (case result of [] \<Rightarrow> None | x # _ \<Rightarrow> Some (Record x)),
            res_pagination = None, res_error = None\<rparr>"
    by (simp_all add: create_handler_def)
next
  fix u
  assume a: "\<not> truthy (body ''customerId'') \<and> body ''customerId'' \<noteq> JUndefined \<and>
    update_plan body = Inr u"
  then show "ud_customerId u = Some JNull"
    using update_plan_Inr [of body u] by (simp add: planned_update_def)
  from a show "issued (update_handler exec_update d invoiceNo stockCode body) =
      [Update u (key_where invoiceNo stockCode)]"
    by (simp add: update_handler_def split: sum.splits prod.splits)
  fix result d' assume "exec_update u (key_where invoiceNo stockCode) d = Inr (result, d')"
  with a show "store (update_handler exec_update d invoiceNo stockCode body) = d'"
    and "reply (update_handler exec_update d invoiceNo stockCode body) =
           (case result of
              [] \<Rightarrow> failure 404 ''Sales record not found''
            | x # _ \<Rightarrow>
                \<lparr>res_status = 200, res_success = True,
                 res_message = Some ''Sales record updated successfully'',
                 res_data = Some (Record x), res_pagination = None, res_error = None\<rparr>)"
    by (simp_all add: update_handler_def)
qed

theorem falsy_customerId_stored_null_witness:
  "\<not> truthy (demo_body ''customerId'') \<and>
   (\<exists>r result d'.
      create_plan demo_body = Inr r \<and> nr_customerId r = JNull \<and>
      demo_insert r demo_db = Inr (result, d') \<and>
      store (create_handler demo_insert demo_db demo_body) = d' \<and>
      map row_customerId (db_rows d') = [Some 17850, Some 12583, None, None] \<and>
      map row_customerId result = [None]) \<and>
   \<not> truthy (demo_update ''customerId'') \<and> demo_update ''customerId'' \<noteq> JUndefined \<and>
   (\<exists>u result d'.
      update_plan demo_update = Inr u \<and> ud_customerId u = Some JNull \<and>
      demo_exec_update u (key_where ''536370'' ''22728'') demo_db = Inr (result, d') \<and>
      store (update_handler demo_exec_update demo_db ''536370'' ''22728'' demo_update) = d' \<and>
      map row_customerId (db_rows d') = [Some 17850, None, None] \<and>
      map row_customerId result = [None])"
proof -
  have c: "\<not> truthy (demo_body ''customerId'')" by (simp add: demo_body_def)
  have u: "\<not> truthy (demo_update ''customerId'')" "demo_update ''customerId'' \<noteq> JUndefined"
    by (simp_all add: demo_update_def)
  define r where "r =
    \<lparr>nr_invoiceNo = ''536365'', nr_stockCode = ''85123A'', nr_description = JNull,
     nr_quantity = Fin 6, nr_invoiceDate = NewDate (JString ''2010-12-01T08:26:00Z''),
     nr_unitPrice = ToFixed2 (Fin (51 / 20)), nr_customerId = JNull,
     nr_country = ''United Kingdom''\<rparr>"
  have plan: "create_plan demo_body = Inr r"
    unfolding r_def by code_simp
  obtain result d' where ins: "demo_insert r demo_db = Inr (result, d')"
    by (simp add: demo_insert_def Let_def)
  have stored: "map row_customerId (db_rows d') = [Some 17850, Some 12583, None, None]"
    "map row_customerId result = [None]"
    using ins by (auto simp: demo_insert_def Let_def r_def demo_db_def demo_rows_def)
  define v where "v =
    \<lparr>ud_description = None, ud_quantity = Some (Fin 7), ud_invoiceDate = None,
     ud_unitPrice = None, ud_customerId = Some JNull, ud_country = None\<rparr>"
  have uplan: "update_plan demo_update = Inr v"
    unfolding v_def by code_simp
  obtain result' d'' where upd:
    "demo_exec_update v (key_where ''536370'' ''22728'') demo_db = Inr (result', d'')"
    by (simp add: demo_exec_update_def)
  have set: "map row_customerId (db_rows d'') = [Some 17850, None, None]"
    "map row_customerId result' = [None]"
    using upd
    by (auto simp: demo_exec_update_def demo_set_def v_def demo_db_def demo_rows_def holds_key)
  from falsy_customerId_stored_null [where body = demo_body and exec_insert = demo_insert
      and d = demo_db] c plan ins
  have "nr_customerId r = JNull"
    and "store (create_handler demo_insert demo_db demo_body) = d'"
    by blast+
  with plan ins stored have created:
    "\<exists>r result d'.
       create_plan demo_body = Inr r \<and> nr_customerId r = JNull \<and>
       demo_insert r demo_db = Inr (result, d') \<and>
       store (create_handler demo_insert demo_db demo_body) = d' \<and>
       map row_customerId (db_rows d') = [Some 17850, Some 12583, None, None] \<and>
       map row_customerId result = [None]"
    by (intro exI [of _ r] exI [of _ result] exI [of _ d']) simp
  from falsy_customerId_stored_null [where body = demo_update and exec_update = demo_exec_update
      and d = demo_db and invoiceNo = "''536370''" and stockCode = "''22728''"] u uplan upd
  have "ud_customerId v = Some JNull"
    and "store (update_handler demo_exec_update demo_db ''536370'' ''22728'' demo_update) = d''"
    by blast+
  with uplan upd set have updated:
    "\<exists>u result d'.
       update_plan demo_update = Inr u \<and> ud_customerId u = Some JNull \<and>
       demo_exec_update u (key_where ''536370'' ''22728'') demo_db = Inr (result, d') \<and>
       store (update_handler demo_exec_update demo_db ''536370'' ''22728'' demo_update) = d' \<and>
       map row_customerId (db_rows d') = [Some 17850, None, None] \<and>
       map row_customerId result = [None]"
    by (intro exI [of _ v] exI [of _ result'] exI [of _ d'']) simp
  from c u created updated show ?thesis by (intro conjI)
qed

end
